theory Spec2Isabelle
  imports Main
begin

section \<open>Values shared by the vector and the client\<close>

text \<open>
  A binary floating-point value, as Python's \<open>float\<close> (binary64) and numpy's
  \<open>float32\<close> (binary32) have it: not-a-number, a signed infinity, or a signed
  dyadic number. \<open>Fin s m e\<close> stands for \<open>(-1)^s * m * 2^e\<close>; \<open>s = True\<close> is the
  negative sign, so \<open>Fin True 0 e\<close> is the negative zero.
\<close>

datatype fp = NaN | Inf bool | Fin bool nat int


subsection \<open>IEEE 754 rounding and arithmetic\<close>

text \<open>The number of binary digits of a natural number.\<close>

fun bitlen :: "nat \<Rightarrow> nat" where
  "bitlen n = (if n = 0 then 0 else bitlen (n div 2) + 1)"

declare bitlen.simps [simp del]

text \<open>
  Rounding to nearest, ties to even, of the exact dyadic number \<open>(-1)^s * m * 2^e\<close>
  into the format with \<open>p\<close> digits of precision whose least exponent is \<open>emin\<close> and
  whose greatest exponent is \<open>emax\<close> (both of the unit in the last place). The
  result is in canonical form: the mantissa has \<open>p\<close> digits, or the exponent is
  \<open>emin\<close> (a subnormal number or zero). What exceeds the format becomes infinite.

  \<open>round_fp\<close> finds the exponent \<open>e'\<close> of the result; \<open>round_at\<close> keeps a number
  that fits exactly and otherwise cuts the mantissa into the quotient \<open>q\<close>, the
  remainder \<open>r\<close> and the half-way mark \<open>h\<close>; \<open>round_shift\<close> rounds the quotient up
  or down; \<open>round_pack\<close> renormalises a mantissa that rounded up to \<open>2^p\<close> and
  detects overflow.
\<close>

definition round_pack :: "nat \<Rightarrow> int \<Rightarrow> bool \<Rightarrow> nat \<Rightarrow> int \<Rightarrow> fp" where
  "round_pack p emax s q e' =
     (if q = 2 ^ p
      then (if emax < e' + 1 then Inf s else Fin s (2 ^ (p - 1)) (e' + 1))
      else (if emax < e' then Inf s else Fin s q e'))"

definition round_shift :: "nat \<Rightarrow> int \<Rightarrow> bool \<Rightarrow> nat \<Rightarrow> nat \<Rightarrow> nat \<Rightarrow> int \<Rightarrow> fp" where
  "round_shift p emax s q r h e' =
     round_pack p emax s (if h < r \<or> (r = h \<and> odd q) then q + 1 else q) e'"

definition round_at :: "nat \<Rightarrow> int \<Rightarrow> bool \<Rightarrow> nat \<Rightarrow> int \<Rightarrow> int \<Rightarrow> fp" where
  "round_at p emax s m e e' =
     (if e' \<le> e
      then (if emax < e' then Inf s else Fin s (m * 2 ^ nat (e - e')) e')
      else round_shift p emax s (m div 2 ^ nat (e' - e)) (m mod 2 ^ nat (e' - e))
             (2 ^ (nat (e' - e) - 1)) e')"

definition round_fp :: "nat \<Rightarrow> int \<Rightarrow> int \<Rightarrow> bool \<Rightarrow> nat \<Rightarrow> int \<Rightarrow> fp" where
  "round_fp p emin emax s m e =
     (if m = 0 then Fin s 0 emin
      else round_at p emax s m e (max emin (e + int (bitlen m) - int p)))"

text \<open>binary32 (numpy's \<open>float32\<close>) and binary64 (Python's \<open>float\<close>).\<close>

definition round32 :: "bool \<Rightarrow> nat \<Rightarrow> int \<Rightarrow> fp" where
  "round32 = round_fp 24 (- 149) 104"

definition round64 :: "bool \<Rightarrow> nat \<Rightarrow> int \<Rightarrow> fp" where
  "round64 = round_fp 53 (- 1074) 971"

text \<open>\<open>astype(np.float32)\<close> of one component, and \<open>float(x)\<close> of a \<open>float32\<close>.\<close>

fun to_float32 :: "fp \<Rightarrow> fp" where
  "to_float32 NaN = NaN"
| "to_float32 (Inf s) = Inf s"
| "to_float32 (Fin s m e) = round32 s m e"

fun to_float64 :: "fp \<Rightarrow> fp" where
  "to_float64 NaN = NaN"
| "to_float64 (Inf s) = Inf s"
| "to_float64 (Fin s m e) = round64 s m e"

text \<open>The literals \<open>0.0\<close> of Python and \<open>0\<close> of a \<open>float32\<close> accumulator.\<close>

definition zero64 :: fp where
  "zero64 = Fin False 0 (- 1074)"

definition zero32 :: fp where
  "zero32 = Fin False 0 (- 149)"

text \<open>The signed integer \<open>(-1)^s * m * 2^(e - e0)\<close>, for \<open>e0 \<le> e\<close>.\<close>

definition scaled :: "int \<Rightarrow> bool \<Rightarrow> nat \<Rightarrow> int \<Rightarrow> int" where
  "scaled e0 s m e = (if s then - 1 else 1) * int m * 2 ^ nat (e - e0)"

fun fneg :: "fp \<Rightarrow> fp" where
  "fneg NaN = NaN"
| "fneg (Inf s) = Inf (\<not> s)"
| "fneg (Fin s m e) = Fin (\<not> s) m e"

text \<open>
  \<open>float32\<close> addition: the exact sum \<open>c * 2^e0\<close>, rounded. An exact zero sum is
  negative only when both operands are negative.
\<close>

definition add_round :: "bool \<Rightarrow> int \<Rightarrow> int \<Rightarrow> fp" where
  "add_round both_negative c e0 =
     (if c = 0 then Fin both_negative 0 (- 149) else round32 (c < 0) (nat \<bar>c\<bar>) e0)"

fun fadd :: "fp \<Rightarrow> fp \<Rightarrow> fp" where
  "fadd NaN _ = NaN"
| "fadd _ NaN = NaN"
| "fadd (Inf s) (Inf t) = (if s = t then Inf s else NaN)"
| "fadd (Inf s) (Fin _ _ _) = Inf s"
| "fadd (Fin _ _ _) (Inf t) = Inf t"
| "fadd (Fin s1 m1 e1) (Fin s2 m2 e2) =
     add_round (s1 \<and> s2)
       (scaled (min e1 e2) s1 m1 e1 + scaled (min e1 e2) s2 m2 e2) (min e1 e2)"

definition fsub :: "fp \<Rightarrow> fp \<Rightarrow> fp" where
  "fsub a b = fadd a (fneg b)"

fun fmul :: "fp \<Rightarrow> fp \<Rightarrow> fp" where
  "fmul NaN _ = NaN"
| "fmul _ NaN = NaN"
| "fmul (Inf s) (Inf t) = Inf (s \<noteq> t)"
| "fmul (Inf s) (Fin t m e) = (if m = 0 then NaN else Inf (s \<noteq> t))"
| "fmul (Fin s m e) (Inf t) = (if m = 0 then NaN else Inf (s \<noteq> t))"
| "fmul (Fin s1 m1 e1) (Fin s2 m2 e2) = round32 (s1 \<noteq> s2) (m1 * m2) (e1 + e2)"

text \<open>
  The fused multiply-add \<open>x * y + z\<close>, rounded once. The product of two finite
  numbers is exact as a dyadic number, and \<open>fadd\<close> rounds the exact sum of its
  operands whatever their form; a product with an infinite or \<open>NaN\<close> factor is not
  rounded by \<open>fmul\<close> either.
\<close>

fun ffma :: "fp \<Rightarrow> fp \<Rightarrow> fp \<Rightarrow> fp" where
  "ffma (Fin s1 m1 e1) (Fin s2 m2 e2) z = fadd (Fin (s1 \<noteq> s2) (m1 * m2) (e1 + e2)) z"
| "ffma x y z = fadd (fmul x y) z"

text \<open>
  \<open>float32\<close> division. The quotient of \<open>n = m1 * 2^k\<close> by \<open>m2\<close> is taken with more
  than 32 digits and one more digit that records a remainder, which rounds as the
  exact quotient does. Division by zero raises nothing in numpy: it gives an
  infinity or \<open>NaN\<close>.
\<close>

definition div_round :: "bool \<Rightarrow> nat \<Rightarrow> nat \<Rightarrow> int \<Rightarrow> fp" where
  "div_round s n m2 e =
     round32 s (if n mod m2 = 0 then 2 * (n div m2) else 2 * (n div m2) + 1) e"

fun fdiv :: "fp \<Rightarrow> fp \<Rightarrow> fp" where
  "fdiv NaN _ = NaN"
| "fdiv _ NaN = NaN"
| "fdiv (Inf s) (Inf t) = NaN"
| "fdiv (Inf s) (Fin t m e) = Inf (s \<noteq> t)"
| "fdiv (Fin s m e) (Inf t) = Fin (s \<noteq> t) 0 (- 149)"
| "fdiv (Fin s1 m1 e1) (Fin s2 m2 e2) =
     (if m2 = 0 then (if m1 = 0 then NaN else Inf (s1 \<noteq> s2))
      else div_round (s1 \<noteq> s2) (m1 * 2 ^ (bitlen m2 + 32)) m2
             (e1 - e2 - int (bitlen m2 + 32) - 1))"

text \<open>The integer square root, two binary digits of the argument at a time.\<close>

definition isqrt_step :: "nat \<Rightarrow> nat \<Rightarrow> nat" where
  "isqrt_step n r = (if (r + 1) * (r + 1) \<le> n then r + 1 else r)"

function isqrt :: "nat \<Rightarrow> nat" where
  "isqrt n = (if n < 2 then n else isqrt_step n (2 * isqrt (n div 4)))"
  by pat_completeness auto
termination
  by (relation "measure id") auto

declare isqrt.simps [simp del]

text \<open>
  \<open>float32\<close> square root: the integer root \<open>r\<close> of the mantissa scaled to an even
  exponent and to more than 32 digits, with one more digit for an inexact root.
\<close>

definition sqrt_round :: "nat \<Rightarrow> nat \<Rightarrow> int \<Rightarrow> fp" where
  "sqrt_round n r e = round32 False (if r * r = n then 2 * r else 2 * r + 1) e"

definition sqrt_scaled :: "nat \<Rightarrow> int \<Rightarrow> fp" where
  "sqrt_scaled n e = sqrt_round n (isqrt n) e"

fun fsqrt :: "fp \<Rightarrow> fp" where
  "fsqrt NaN = NaN"
| "fsqrt (Inf s) = (if s then NaN else Inf False)"
| "fsqrt (Fin s m e) =
     (if m = 0 then Fin s 0 (- 149)
      else if s then NaN
      else if even e then sqrt_scaled (m * 2 ^ 64) ((e - 64) div 2 - 1)
      else sqrt_scaled (m * 2 ^ 65) ((e - 65) div 2 - 1))"

text \<open>The comparisons \<open>==\<close>, \<open><\<close>, \<open>>\<close> and \<open>>=\<close> of floats: \<open>NaN\<close> compares false
  with everything, and the two zeros are equal.\<close>

fun fp_eq :: "fp \<Rightarrow> fp \<Rightarrow> bool" where
  "fp_eq NaN _ = False"
| "fp_eq _ NaN = False"
| "fp_eq (Inf s) (Inf t) = (s = t)"
| "fp_eq (Inf s) (Fin _ _ _) = False"
| "fp_eq (Fin _ _ _) (Inf t) = False"
| "fp_eq (Fin s1 m1 e1) (Fin s2 m2 e2) =
     (scaled (min e1 e2) s1 m1 e1 = scaled (min e1 e2) s2 m2 e2)"

fun fp_lt :: "fp \<Rightarrow> fp \<Rightarrow> bool" where
  "fp_lt NaN _ = False"
| "fp_lt _ NaN = False"
| "fp_lt (Inf s) (Inf t) = (s \<and> \<not> t)"
| "fp_lt (Inf s) (Fin _ _ _) = s"
| "fp_lt (Fin _ _ _) (Inf t) = (\<not> t)"
| "fp_lt (Fin s1 m1 e1) (Fin s2 m2 e2) =
     (scaled (min e1 e2) s1 m1 e1 < scaled (min e1 e2) s2 m2 e2)"

definition fp_gt :: "fp \<Rightarrow> fp \<Rightarrow> bool" where
  "fp_gt a b = fp_lt b a"

definition fp_ge :: "fp \<Rightarrow> fp \<Rightarrow> bool" where
  "fp_ge a b = (fp_lt b a \<or> fp_eq a b)"

text \<open>Two classes of floats that the statements below speak of: the finite ones,
  and the ones that are not \<open>NaN\<close> and whose sign is positive.\<close>

fun is_finite :: "fp \<Rightarrow> bool" where
  "is_finite (Fin _ _ _) = True"
| "is_finite _ = False"


subsection \<open>Decoded JSON\<close>

text \<open>
  A decoded JSON document, as \<open>response.json()\<close> returns it and as the \<open>json=\<close>
  argument of a request takes it. \<open>JNull\<close> is Python's \<open>None\<close>. A \<open>JObject\<close> is a
  Python dict, kept as an association list in insertion order.
\<close>

datatype jvalue =
    JNull
  | JBool bool
  | JInt int
  | JFloat fp
  | JString string
  | JArray "jvalue list"
  | JObject "(string \<times> jvalue) list"

section \<open>Exceptions\<close>

text \<open>
  The three exception classes of client.py, and the built-in exceptions that the
  decoding code can raise. Each carries its message.
\<close>

datatype exn =
    VectisError string
  | VectisConnectionError string
  | VectisNotFoundError string
  | JSONDecodeError string
  | AttributeError string
  | TypeError string
  | KeyError string
  | ValueError string
  | IndexError string

fun exn_str :: "exn \<Rightarrow> string" where
  "exn_str (VectisError m) = m"
| "exn_str (VectisConnectionError m) = m"
| "exn_str (VectisNotFoundError m) = m"
| "exn_str (JSONDecodeError m) = m"
| "exn_str (AttributeError m) = m"
| "exn_str (TypeError m) = m"
| "exn_str (KeyError m) = m"
| "exn_str (ValueError m) = m"
| "exn_str (IndexError m) = m"

section \<open>vector.py\<close>

subsection \<open>numpy arrays of float32\<close>

text \<open>
  A one-dimensional \<open>float32\<close> array is the list of its components. Arrays are
  mutable objects: the heap is the list of the arrays allocated so far, and a
  reference to an array is its position in the heap.
\<close>

type_synonym ndarray = "fp list"

type_synonym heap = "ndarray list"

definition alloc :: "heap \<Rightarrow> ndarray \<Rightarrow> heap \<times> nat" where
  "alloc h xs = (h @ [xs], length h)"

text \<open>
  \<open>np.dot\<close> of two one-dimensional \<open>float32\<close> arrays of equal length is the sum of
  the products of their components, in \<open>float32\<close>. numpy hands the sum to its
  BLAS, which fixes neither the order of the additions nor whether a product is
  rounded before it is added or fused into the addition. A plan says how one
  build of numpy does it for arrays of one length: \<open>Prod i\<close> is the rounded
  product of the components at position \<open>i\<close>, \<open>Add\<close> adds two partial sums, and
  \<open>Fma i p\<close> adds the exact product at position \<open>i\<close> to the partial sum \<open>p\<close> with one
  rounding. A position beyond the arrays contributes nothing.
\<close>

datatype plan = Prod nat | Add plan plan | Fma nat plan

fun run_plan :: "plan \<Rightarrow> ndarray \<Rightarrow> ndarray \<Rightarrow> fp" where
  "run_plan (Prod i) a b = (if i < length a then fmul (a ! i) (b ! i) else zero32)"
| "run_plan (Add p q) a b = fadd (run_plan p a b) (run_plan q a b)"
| "run_plan (Fma i p) a b =
     (if i < length a then ffma (a ! i) (b ! i) (run_plan p a b) else run_plan p a b)"

text \<open>The positions that a plan reads. The plan of a dot product of length \<open>n\<close>
  reads each position below \<open>n\<close> once.\<close>

fun leaves :: "plan \<Rightarrow> nat list" where
  "leaves (Prod i) = [i]"
| "leaves (Add p q) = leaves p @ leaves q"
| "leaves (Fma i p) = i # leaves p"

definition plan_ok :: "nat \<Rightarrow> plan \<Rightarrow> bool" where
  "plan_ok n p = (distinct (leaves p) \<and> set (leaves p) = set [0..<n])"

text \<open>
  What the model leaves to numpy: the plan of \<open>np.dot\<close> for each length, and the
  array that \<open>np.array(obj, dtype=np.float32)\<close> makes of a decoded JSON document
  that is not a list of numbers (see \<open>np_array_json\<close> below).
\<close>

record numpy =
  dot_plan :: "nat \<Rightarrow> plan"
  array_of :: "jvalue \<Rightarrow> exn + ndarray"

text \<open>The dot product of two arrays of equal length; of empty arrays it is zero.\<close>

definition dot_sum :: "numpy \<Rightarrow> ndarray \<Rightarrow> ndarray \<Rightarrow> fp" where
  "dot_sum np a b = (if a = [] then zero32 else run_plan (dot_plan np (length a)) a b)"

text \<open>numpy raises \<open>ValueError\<close> when the lengths differ.\<close>

definition np_dot :: "numpy \<Rightarrow> ndarray \<Rightarrow> ndarray \<Rightarrow> exn + fp" where
  "np_dot np a b =
     (if length a \<noteq> length b then Inl (ValueError ''shapes not aligned'')
      else Inr (dot_sum np a b))"

text \<open>
  \<open>a - b\<close> on one-dimensional arrays follows numpy's broadcasting: equal lengths
  subtract componentwise, an array of length 1 is stretched to the length of the
  other one, and any other pair of lengths raises \<open>ValueError\<close>.
\<close>

definition np_subtract :: "ndarray \<Rightarrow> ndarray \<Rightarrow> exn + ndarray" where
  "np_subtract a b =
     (if length a = length b then Inr (map2 fsub a b)
      else if length a = 1 then Inr (map (\<lambda>y. fsub (hd a) y) b)
      else if length b = 1 then Inr (map (\<lambda>x. fsub x (hd b)) a)
      else Inl (ValueError ''operands could not be broadcast together''))"

text \<open>\<open>np.linalg.norm\<close> of a one-dimensional real array is \<open>sqrt(x.dot(x))\<close>, in the
  array's own precision.\<close>

definition linalg_norm :: "numpy \<Rightarrow> ndarray \<Rightarrow> fp" where
  "linalg_norm np x = fsqrt (dot_sum np x x)"

subsection \<open>class Vector\<close>

record Vector =
  data :: nat

text \<open>
  The argument of the constructor: a Python list of floats, or a numpy array (its
  element type and its components, flattened).
\<close>

datatype dtype = Float32 | Float64

datatype array_like = PyList "fp list" | NdArray dtype "fp list"

text \<open>
  The array that \<open>__init__\<close> builds. Both branches build a fresh array:
  \<open>data.flatten().astype(np.float32)\<close> copies, and so does \<open>np.array\<close>.
\<close>

fun np_array :: "array_like \<Rightarrow> ndarray" where
  "np_array (NdArray dt xs) = (if dt = Float32 then xs else map to_float32 xs)"
| "np_array (PyList xs) = map to_float32 xs"

definition Vector_init :: "heap \<Rightarrow> array_like \<Rightarrow> heap \<times> Vector" where
  "Vector_init h d = (case alloc h (np_array d) of (h', a) \<Rightarrow> (h', \<lparr>data = a\<rparr>))"

text \<open>
  The constructor on a decoded JSON document, as \<open>get_vector\<close> calls it. Such a list
  can hold more than floats. A JSON number that is a float, an integer that a
  float holds exactly, a boolean or \<open>null\<close> (which numpy reads as \<open>NaN\<close>) has a known
  \<open>float32\<close>; for every other document (a string, a nested list, a dict, a
  larger integer) the array, or the exception, is what numpy makes of it.
\<close>

fun json_number :: "jvalue \<Rightarrow> fp option" where
  "json_number (JFloat x) = Some x"
| "json_number (JInt n) =
     (if \<bar>n\<bar> \<le> 2 ^ 53 then Some (Fin (n < 0) (nat \<bar>n\<bar>) 0) else None)"
| "json_number (JBool b) = Some (Fin False (if b then 1 else 0) 0)"
| "json_number JNull = Some NaN"
| "json_number _ = None"

fun json_numbers :: "jvalue list \<Rightarrow> fp list option" where
  "json_numbers [] = Some []"
| "json_numbers (x # xs) =
     (case json_number x of
        None \<Rightarrow> None
      | Some y \<Rightarrow> (case json_numbers xs of None \<Rightarrow> None | Some ys \<Rightarrow> Some (y # ys)))"

fun np_array_json :: "numpy \<Rightarrow> jvalue \<Rightarrow> exn + ndarray" where
  "np_array_json np (JArray xs) =
     (case json_numbers xs of
        Some ys \<Rightarrow> Inr (map to_float32 ys)
      | None \<Rightarrow> array_of np (JArray xs))"
| "np_array_json np x = array_of np x"

definition Vector_of_json :: "numpy \<Rightarrow> heap \<Rightarrow> jvalue \<Rightarrow> exn + heap \<times> Vector" where
  "Vector_of_json np h x =
     (case np_array_json np x of
        Inl e \<Rightarrow> Inl e
      | Inr arr \<Rightarrow> (case alloc h arr of (h', a) \<Rightarrow> Inr (h', \<lparr>data = a\<rparr>)))"

definition to_list :: "heap \<Rightarrow> Vector \<Rightarrow> fp list" where
  "to_list h self = map to_float64 (h ! data self)"

definition to_numpy :: "Vector \<Rightarrow> nat" where
  "to_numpy self = data self"

definition normalize_vec :: "numpy \<Rightarrow> heap \<Rightarrow> Vector \<Rightarrow> heap \<times> Vector" where
  "normalize_vec np h self =
     (let norm = linalg_norm np (h ! data self) in
      if fp_gt norm zero32
      then Vector_init h (NdArray Float32 (map (\<lambda>x. fdiv x norm) (h ! data self)))
      else Vector_init h (NdArray Float32 (h ! data self)))"

definition cosine_similarity :: "numpy \<Rightarrow> heap \<Rightarrow> Vector \<Rightarrow> Vector \<Rightarrow> exn + fp" where
  "cosine_similarity np h self other =
     (case np_dot np (h ! data self) (h ! data other) of
        Inl e \<Rightarrow> Inl e
      | Inr dot_product \<Rightarrow>
          (let norm_self = linalg_norm np (h ! data self);
               norm_other = linalg_norm np (h ! data other)
           in if fp_eq norm_self zero32 \<or> fp_eq norm_other zero32 then Inr zero64
              else Inr (to_float64 (fdiv dot_product (fmul norm_self norm_other)))))"

definition euclidean_distance :: "numpy \<Rightarrow> heap \<Rightarrow> Vector \<Rightarrow> Vector \<Rightarrow> exn + fp" where
  "euclidean_distance np h self other =
     (case np_subtract (h ! data self) (h ! data other) of
        Inl e \<Rightarrow> Inl e
      | Inr d \<Rightarrow> Inr (to_float64 (linalg_norm np d)))"

definition dot_product :: "numpy \<Rightarrow> heap \<Rightarrow> Vector \<Rightarrow> Vector \<Rightarrow> exn + fp" where
  "dot_product np h self other =
     (case np_dot np (h ! data self) (h ! data other) of
        Inl e \<Rightarrow> Inl e
      | Inr d \<Rightarrow> Inr (to_float64 d))"

definition len :: "heap \<Rightarrow> Vector \<Rightarrow> nat" where
  "len h self = length (h ! data self)"

text \<open>
  \<open>self.data[index]\<close> with an integer index: numpy counts a negative index from
  the end, and raises \<open>IndexError\<close> outside \<open>-n \<le> index < n\<close>.
\<close>

definition np_index :: "nat \<Rightarrow> int \<Rightarrow> exn + nat" where
  "np_index n index =
     (if - int n \<le> index \<and> index < int n
      then Inr (nat (if index < 0 then index + int n else index))
      else Inl (IndexError ''index is out of bounds for axis 0''))"

definition getitem :: "heap \<Rightarrow> Vector \<Rightarrow> int \<Rightarrow> exn + fp" where
  "getitem h self index =
     (case np_index (length (h ! data self)) index of
        Inl e \<Rightarrow> Inl e
      | Inr i \<Rightarrow> Inr ((h ! data self) ! i))"

text \<open>\<open>self.data[index] = value\<close> writes into the array in place; the value is
  stored in \<open>float32\<close>.\<close>

definition setitem :: "heap \<Rightarrow> Vector \<Rightarrow> int \<Rightarrow> fp \<Rightarrow> exn + heap" where
  "setitem h self index val =
     (case np_index (length (h ! data self)) index of
        Inl e \<Rightarrow> Inl e
      | Inr i \<Rightarrow> Inr (h[data self := (h ! data self)[i := to_float32 val]]))"

section \<open>client.py\<close>

subsection \<open>Requests and responses\<close>

text \<open>
  The keyword arguments that the operations pass to \<open>_request\<close>: \<open>data=\<close> (a form),
  \<open>params=\<close> (a query string), \<open>json=\<close> (a JSON body), or none.
\<close>

datatype payload =
    NoPayload
  | FormData "(string \<times> string) list"
  | Params "(string \<times> jvalue) list"
  | Json jvalue

text \<open>
  One call of \<open>session.request(method, url, timeout=..., **kwargs)\<close>. The URL is
  \<open>urljoin(base_url, endpoint)\<close>; the record keeps the two arguments of \<open>urljoin\<close>.
\<close>

record request =
  req_method :: string
  req_base :: string
  req_endpoint :: string
  req_timeout :: int
  req_payload :: payload

text \<open>
  What the code reads of a \<open>requests.Response\<close>: \<open>status_code\<close>, \<open>text\<close>, and
  \<open>json()\<close>, which is \<open>None\<close> when the body does not decode (the call raises).
\<close>

record response =
  status_code :: int
  body_text :: string
  body_json :: "jvalue option"

text \<open>
  The \<open>requests\<close> library, over a session state \<open>'s\<close> of its own: a fresh
  \<open>Session()\<close>, \<open>Session.request\<close>, which answers with a response or raises a
  \<open>RequestException\<close> (\<open>Inl\<close> its message), and \<open>Session.close\<close>.
\<close>

record 's http_lib =
  Session :: 's
  session_request :: "'s \<Rightarrow> request \<Rightarrow> 's \<times> (string + response)"
  session_close :: "'s \<Rightarrow> 's"

record 's VectisClient =
  base_url :: string
  timeout :: int
  session :: 's

text \<open>The outcome of a method: the client after the call, and a raise or a return.\<close>

type_synonym ('s, 'a) outcome = "'s VectisClient \<times> (exn + 'a)"

definition request' ::
  "'s http_lib \<Rightarrow> 's VectisClient \<Rightarrow> string \<Rightarrow> string \<Rightarrow> payload \<Rightarrow> ('s, response) outcome" where
  "request' lib self method endpoint kwargs =
     (case session_request lib (session self)
             \<lparr>req_method = method, req_base = base_url self, req_endpoint = endpoint,
              req_timeout = timeout self, req_payload = kwargs\<rparr> of
        (s', Inr response) \<Rightarrow> (self\<lparr>session := s'\<rparr>, Inr response)
      | (s', Inl e) \<Rightarrow>
          (self\<lparr>session := s'\<rparr>, Inl (VectisConnectionError (''Request failed: '' @ e))))"

definition put :: "'s http_lib \<Rightarrow> 's VectisClient \<Rightarrow> string \<Rightarrow> string \<Rightarrow> ('s, unit) outcome" where
  "put lib self key val =
     (case request' lib self ''POST'' ''/api/put''
             (FormData [(''key'', key), (''value'', val)]) of
        (self', Inl e) \<Rightarrow> (self', Inl e)
      | (self', Inr response) \<Rightarrow>
          if status_code response \<noteq> 200
          then (self', Inl (VectisError (''PUT failed: '' @ body_text response)))
          else (self', Inr ()))"

definition get :: "'s http_lib \<Rightarrow> 's VectisClient \<Rightarrow> string \<Rightarrow> ('s, string option) outcome" where
  "get lib self key =
     (case request' lib self ''GET'' ''/api/get'' (Params [(''key'', JString key)]) of
        (self', Inl e) \<Rightarrow> (self', Inl e)
      | (self', Inr response) \<Rightarrow>
          if status_code response = 404 then (self', Inr None)
          else if status_code response \<noteq> 200
          then (self', Inl (VectisError (''GET failed: '' @ body_text response)))
          else (self', Inr (Some (body_text response))))"

definition delete :: "'s http_lib \<Rightarrow> 's VectisClient \<Rightarrow> string \<Rightarrow> ('s, unit) outcome" where
  "delete lib self key =
     (case request' lib self ''POST'' ''/api/delete'' (FormData [(''key'', key)]) of
        (self', Inl e) \<Rightarrow> (self', Inl e)
      | (self', Inr response) \<Rightarrow>
          if status_code response \<noteq> 200
          then (self', Inl (VectisError (''DELETE failed: '' @ body_text response)))
          else (self', Inr ()))"

text \<open>\<open>items\<close> is a dict, iterated in insertion order: an association list.\<close>

definition batch_put ::
  "'s http_lib \<Rightarrow> 's VectisClient \<Rightarrow> (string \<times> string) list \<Rightarrow> ('s, unit) outcome" where
  "batch_put lib self items =
     (let operations =
            map (\<lambda>(k, v). JObject [(''type'', JString ''PUT''), (''key'', JString k),
                                      (''value'', JString v)]) items
      in case request' lib self ''POST'' ''/api/batch''
                (Json (JObject [(''operations'', JArray operations)])) of
           (self', Inl e) \<Rightarrow> (self', Inl e)
         | (self', Inr response) \<Rightarrow>
             if status_code response \<noteq> 200
             then (self', Inl (VectisError (''Batch PUT failed: '' @ body_text response)))
             else (self', Inr ()))"

subsection \<open>Decoding a JSON response\<close>

definition response_json :: "response \<Rightarrow> exn + jvalue" where
  "response_json response =
     (case body_json response of
        None \<Rightarrow> Inl (JSONDecodeError ''Expecting value'')
      | Some j \<Rightarrow> Inr j)"

text \<open>\<open>d.get(key, default)\<close>: only a dict has the method.\<close>

fun py_get :: "jvalue \<Rightarrow> string \<Rightarrow> jvalue \<Rightarrow> exn + jvalue" where
  "py_get (JObject kvs) key dflt =
     (case map_of kvs key of None \<Rightarrow> Inr dflt | Some v \<Rightarrow> Inr v)"
| "py_get _ key dflt = Inl (AttributeError ''object has no attribute get'')"

text \<open>\<open>item[key]\<close> with a string key.\<close>

fun py_item :: "jvalue \<Rightarrow> string \<Rightarrow> exn + jvalue" where
  "py_item (JObject kvs) key =
     (case map_of kvs key of None \<Rightarrow> Inl (KeyError key) | Some v \<Rightarrow> Inr v)"
| "py_item (JArray _) key = Inl (TypeError ''list indices must be integers or slices'')"
| "py_item (JString _) key = Inl (TypeError ''string indices must be integers'')"
| "py_item _ key = Inl (TypeError ''object is not subscriptable'')"

text \<open>Iteration, as \<open>zip\<close> and a comprehension do it: over the elements of a list,
  the characters of a string or the keys of a dict.\<close>

fun py_iter :: "jvalue \<Rightarrow> exn + jvalue list" where
  "py_iter (JArray xs) = Inr xs"
| "py_iter (JString cs) = Inr (map (\<lambda>c. JString [c]) cs)"
| "py_iter (JObject kvs) = Inr (map (\<lambda>kv. JString (fst kv)) kvs)"
| "py_iter _ = Inl (TypeError ''object is not iterable'')"

text \<open>The truth value of an object, as \<open>v if v else None\<close> tests it.\<close>

fun py_truthy :: "jvalue \<Rightarrow> bool" where
  "py_truthy JNull = False"
| "py_truthy (JBool b) = b"
| "py_truthy (JInt n) = (n \<noteq> 0)"
| "py_truthy (JFloat x) = (\<not> fp_eq x zero64)"
| "py_truthy (JString cs) = (cs \<noteq> [])"
| "py_truthy (JArray xs) = (xs \<noteq> [])"
| "py_truthy (JObject kvs) = (kvs \<noteq> [])"

text \<open>A dict built by a comprehension: a later pair replaces an earlier one with
  the same key.\<close>

definition dict_of :: "('k \<times> 'v) list \<Rightarrow> ('k \<rightharpoonup> 'v)" where
  "dict_of kvs = foldl (\<lambda>d (k, v). d(k \<mapsto> v)) Map.empty kvs"

text \<open>A list comprehension whose body can raise: the first raise ends it.\<close>

fun comprehension :: "('a \<Rightarrow> exn + 'b) \<Rightarrow> 'a list \<Rightarrow> exn + 'b list" where
  "comprehension f [] = Inr []"
| "comprehension f (x # xs) =
     (case f x of
        Inl e \<Rightarrow> Inl e
      | Inr y \<Rightarrow> (case comprehension f xs of Inl e \<Rightarrow> Inl e | Inr ys \<Rightarrow> Inr (y # ys)))"

subsection \<open>Batch get, scan\<close>

definition batch_get ::
  "'s http_lib \<Rightarrow> 's VectisClient \<Rightarrow> string list \<Rightarrow> ('s, string \<rightharpoonup> jvalue) outcome" where
  "batch_get lib self keys =
     (case request' lib self ''POST'' ''/api/batch_get''
             (Json (JObject [(''keys'', JArray (map JString keys))])) of
        (self', Inl e) \<Rightarrow> (self', Inl e)
      | (self', Inr response) \<Rightarrow>
          if status_code response \<noteq> 200
          then (self', Inl (VectisError (''Batch GET failed: '' @ body_text response)))
          else
            (case response_json response of
               Inl e \<Rightarrow> (self', Inl e)
             | Inr results \<Rightarrow>
                 (case py_get results ''values'' (JArray []) of
                    Inl e \<Rightarrow> (self', Inl e)
                  | Inr vals \<Rightarrow>
                      (case py_iter vals of
                         Inl e \<Rightarrow> (self', Inl e)
                       | Inr vs \<Rightarrow>
                           (self', Inr (dict_of
                              (map (\<lambda>(k, v). (k, if py_truthy v then v else JNull))
                                 (zip keys vs))))))))"

definition scan ::
  "'s http_lib \<Rightarrow> 's VectisClient \<Rightarrow> string \<Rightarrow> string \<Rightarrow> int \<Rightarrow> bool
     \<Rightarrow> ('s, (jvalue \<times> jvalue) list) outcome" where
  "scan lib self start end limit reverse =
     (let params = [(''start'', JString start), (''end'', JString end),
                    (''limit'', JInt limit),
                    (''reverse'', JString (if reverse then ''true'' else ''false''))]
      in case request' lib self ''GET'' ''/api/scan'' (Params params) of
           (self', Inl e) \<Rightarrow> (self', Inl e)
         | (self', Inr response) \<Rightarrow>
             if status_code response \<noteq> 200
             then (self', Inl (VectisError (''SCAN failed: '' @ body_text response)))
             else
               (case response_json response of
                  Inl e \<Rightarrow> (self', Inl e)
                | Inr results \<Rightarrow>
                    (case py_get results ''entries'' (JArray []) of
                       Inl e \<Rightarrow> (self', Inl e)
                     | Inr entries \<Rightarrow>
                         (case py_iter entries of
                            Inl e \<Rightarrow> (self', Inl e)
                          | Inr items \<Rightarrow>
                              (self', comprehension
                                 (\<lambda>item. case py_item item ''key'' of
                                    Inl e \<Rightarrow> Inl e
                                  | Inr k \<Rightarrow>
                                      (case py_item item ''value'' of
                                         Inl e \<Rightarrow> Inl e
                                       | Inr v \<Rightarrow> Inr (k, v)))
                                 items)))))"

subsection \<open>Vectors\<close>

text \<open>
  \<open>put_vector\<close> and \<open>search_similar\<close> build a \<open>Vector\<close> of their own and send its
  \<open>to_list()\<close>. The vector is unreachable once the call is over, so the heap that
  the caller sees does not change.
\<close>

definition put_vector ::
  "'s http_lib \<Rightarrow> heap \<Rightarrow> 's VectisClient \<Rightarrow> string \<Rightarrow> fp list \<Rightarrow> ('s, unit) outcome" where
  "put_vector lib h self key vector =
     (case Vector_init h (PyList vector) of
        (h', vec) \<Rightarrow>
          (case request' lib self ''POST'' ''/api/vector/put''
                  (Json (JObject [(''key'', JString key),
                                  (''vector'', JArray (map JFloat (to_list h' vec)))])) of
             (self', Inl e) \<Rightarrow> (self', Inl e)
           | (self', Inr response) \<Rightarrow>
               if status_code response \<noteq> 200
               then (self', Inl (VectisError (''Vector PUT failed: '' @ body_text response)))
               else (self', Inr ())))"

definition get_vector ::
  "'s http_lib \<Rightarrow> numpy \<Rightarrow> heap \<Rightarrow> 's VectisClient \<Rightarrow> string
     \<Rightarrow> ('s, (heap \<times> Vector) option) outcome" where
  "get_vector lib np h self key =
     (case request' lib self ''GET'' ''/api/vector/get'' (Params [(''key'', JString key)]) of
        (self', Inl e) \<Rightarrow> (self', Inl e)
      | (self', Inr response) \<Rightarrow>
          if status_code response = 404 then (self', Inr None)
          else if status_code response \<noteq> 200
          then (self', Inl (VectisError (''Vector GET failed: '' @ body_text response)))
          else
            (case response_json response of
               Inl e \<Rightarrow> (self', Inl e)
             | Inr d \<Rightarrow>
                 (case py_item d ''vector'' of
                    Inl e \<Rightarrow> (self', Inl e)
                  | Inr x \<Rightarrow>
                      (case Vector_of_json np h x of
                         Inl e \<Rightarrow> (self', Inl e)
                       | Inr v \<Rightarrow> (self', Inr (Some v))))))"

definition search_similar ::
  "'s http_lib \<Rightarrow> heap \<Rightarrow> 's VectisClient \<Rightarrow> fp list \<Rightarrow> int
     \<Rightarrow> ('s, (jvalue \<times> jvalue) list) outcome" where
  "search_similar lib h self query k =
     (case Vector_init h (PyList query) of
        (h', vec) \<Rightarrow>
          (case request' lib self ''POST'' ''/api/vector/search''
                  (Json (JObject [(''query'', JArray (map JFloat (to_list h' vec))),
                                  (''k'', JInt k)])) of
             (self', Inl e) \<Rightarrow> (self', Inl e)
           | (self', Inr response) \<Rightarrow>
               if status_code response \<noteq> 200
               then (self', Inl (VectisError (''Vector search failed: '' @ body_text response)))
               else
                 (case response_json response of
                    Inl e \<Rightarrow> (self', Inl e)
                  | Inr d \<Rightarrow>
                      (case py_get d ''results'' (JArray []) of
                         Inl e \<Rightarrow> (self', Inl e)
                       | Inr results \<Rightarrow>
                           (case py_iter results of
                              Inl e \<Rightarrow> (self', Inl e)
                            | Inr items \<Rightarrow>
                                (self', comprehension
                                   (\<lambda>item. case py_item item ''key'' of
                                      Inl e \<Rightarrow> Inl e
                                    | Inr k \<Rightarrow>
                                        (case py_item item ''distance'' of
                                           Inl e \<Rightarrow> Inl e
                                         | Inr v \<Rightarrow> Inr (k, v)))
                                   items))))))"

subsection \<open>Statistics, health, construction and close\<close>

definition get_stats :: "'s http_lib \<Rightarrow> 's VectisClient \<Rightarrow> ('s, jvalue) outcome" where
  "get_stats lib self =
     (case request' lib self ''GET'' ''/api/stats'' NoPayload of
        (self', Inl e) \<Rightarrow> (self', Inl e)
      | (self', Inr response) \<Rightarrow>
          if status_code response \<noteq> 200
          then (self', Inl (VectisError (''Failed to get stats: '' @ body_text response)))
          else (self', response_json response))"

definition health_check :: "'s http_lib \<Rightarrow> 's VectisClient \<Rightarrow> ('s, jvalue) outcome" where
  "health_check lib self =
     (case request' lib self ''GET'' ''/api/health'' NoPayload of
        (self', Inl e) \<Rightarrow> (self', Inl e)
      | (self', Inr response) \<Rightarrow>
          if status_code response \<noteq> 200
          then (self', Inl (VectisError (''Health check failed: '' @ body_text response)))
          else (self', response_json response))"

text \<open>\<open>base_url.rstrip('/')\<close>.\<close>

definition rstrip_slash :: "string \<Rightarrow> string" where
  "rstrip_slash u = rev (dropWhile (\<lambda>c. c = CHR ''/'') (rev u))"

text \<open>
  \<open>__init__\<close>: the fields, then the probe \<open>get_stats()\<close>; whatever the probe raises
  becomes a \<open>VectisConnectionError\<close>, and no client is returned.
\<close>

definition VectisClient_init :: "'s http_lib \<Rightarrow> string \<Rightarrow> int \<Rightarrow> exn + 's VectisClient" where
  "VectisClient_init lib url tmo =
     (let self = \<lparr>base_url = rstrip_slash url, timeout = tmo, session = Session lib\<rparr>
      in case get_stats lib self of
           (self', Inl e) \<Rightarrow>
             Inl (VectisConnectionError
                    (''Failed to connect to '' @ url @ '': '' @ exn_str e))
         | (self', Inr _) \<Rightarrow> Inr self')"

text \<open>\<open>close\<close> closes the session and does nothing else; no field of the client
  records that it was called.\<close>

definition close :: "'s http_lib \<Rightarrow> 's VectisClient \<Rightarrow> 's VectisClient" where
  "close lib self = self\<lparr>session := session_close lib (session self)\<rparr>"

section \<open>The other side of the wire\<close>

text \<open>
  A stand-in for the \<open>requests\<close> library that the theorems below can run. Its
  session records every request that goes out and whether a connection is
  pooled; \<open>server\<close> decides the reply. As in \<open>requests\<close>, a JSON body with an infinite
  or \<open>NaN\<close> number is refused before anything is sent (\<open>InvalidJSONError\<close>, a
  \<open>RequestException\<close>), \<open>close\<close> releases the pool, and a later request opens a
  connection again.
\<close>

fun json_compliant :: "jvalue \<Rightarrow> bool" where
  "json_compliant (JFloat x) = is_finite x"
| "json_compliant (JArray xs) = list_all json_compliant xs"
| "json_compliant (JObject kvs) = list_all json_compliant (map snd kvs)"
| "json_compliant _ = True"

fun encodable :: "payload \<Rightarrow> bool" where
  "encodable (Json j) = json_compliant j"
| "encodable _ = True"

record wire =
  sent :: "request list"
  pooled :: bool

definition wire_lib :: "(request \<Rightarrow> string + response) \<Rightarrow> wire http_lib" where
  "wire_lib server =
     \<lparr>Session = \<lparr>sent = [], pooled = False\<rparr>,
      session_request =
        (\<lambda>s req. if encodable (req_payload req)
                  then (\<lparr>sent = sent s @ [req], pooled = True\<rparr>, server req)
                  else (s, Inl ''Out of range float values are not JSON compliant'')),
      session_close = (\<lambda>s. s\<lparr>pooled := False\<rparr>)\<rparr>"

text \<open>
  A stand-in for numpy: its dot product adds the rounded products from the left,
  and it refuses every document that is not a list of numbers.
\<close>

fun left_plan :: "nat \<Rightarrow> plan" where
  "left_plan 0 = Prod 0"
| "left_plan (Suc k) = Add (left_plan k) (Prod (Suc k))"

definition numpy_ref :: numpy where
  "numpy_ref =
     \<lparr>dot_plan = (\<lambda>n. left_plan (n - 1)),
      array_of = (\<lambda>x. Inl (ValueError ''could not convert to float''))\<rparr>"

text \<open>A server that gives one fixed reply to every request.\<close>

definition answer :: "int \<Rightarrow> string \<Rightarrow> jvalue option \<Rightarrow> request \<Rightarrow> string + response" where
  "answer code txt js req = Inr \<lparr>status_code = code, body_text = txt, body_json = js\<rparr>"

text \<open>
  Modelled from the spec: the remote store, whose code is not part of the SDK.
  It follows the wire contract of the specification for the two calls that read
  values: \<open>GET /api/get\<close> answers 200 with the stored value as its body, or 404 for
  a key that is not stored; \<open>POST /api/batch_get\<close> answers 200 with the values in
  the order of the requested keys, \<open>null\<close> standing for a key that is not stored.
\<close>

definition remote :: "(string \<rightharpoonup> string) \<Rightarrow> request \<Rightarrow> string + response" where
  "remote store req =
     (case (req_endpoint req, req_payload req) of
        (ep, Params [(p, JString k)]) \<Rightarrow>
          (if ep = ''/api/get'' \<and> p = ''key''
           then (case store k of
                   None \<Rightarrow> Inr \<lparr>status_code = 404, body_text = [], body_json = None\<rparr>
                 | Some v \<Rightarrow> Inr \<lparr>status_code = 200, body_text = v, body_json = None\<rparr>)
           else Inr \<lparr>status_code = 400, body_text = ''bad request'', body_json = None\<rparr>)
      | (ep, Json (JObject [(p, JArray ks)])) \<Rightarrow>
          (if ep = ''/api/batch_get'' \<and> p = ''keys''
           then Inr \<lparr>status_code = 200, body_text = [],
                     body_json = Some (JObject [(''values'',
                        JArray (map (\<lambda>j. case j of
                                      JString k \<Rightarrow>
                                        (case store k of None \<Rightarrow> JNull | Some v \<Rightarrow> JString v)
                                    | _ \<Rightarrow> JNull) ks))])\<rparr>
           else Inr \<lparr>status_code = 400, body_text = ''bad request'', body_json = None\<rparr>)
      | _ \<Rightarrow> Inr \<lparr>status_code = 400, body_text = ''bad request'', body_json = None\<rparr>)"

text \<open>A client as the constructor leaves it, with the defaults of \<open>__init__\<close>.\<close>

definition client0 :: "wire VectisClient" where
  "client0 = \<lparr>base_url = ''http://localhost:8080'', timeout = 30,
              session = \<lparr>sent = [], pooled = True\<rparr>\<rparr>"

section \<open>Properties of the float operations\<close>

text \<open>The equations that evaluate the float operations and the methods of \<open>Vector\<close>
  on numerals.\<close>

lemmas fp_eval = round32_def round64_def round_fp_def round_at_def round_shift_def round_pack_def
  add_round_def div_round_def sqrt_round_def sqrt_scaled_def isqrt_step_def zero32_def zero64_def
  scaled_def fsub_def fp_gt_def fp_ge_def bitlen.simps isqrt.simps

lemmas vec_eval = Vector_init_def alloc_def to_list_def normalize_vec_def cosine_similarity_def
  euclidean_distance_def dot_product_def len_def np_dot_def np_subtract_def dot_sum_def
  linalg_norm_def getitem_def setitem_def np_index_def numpy_ref_def

subsection \<open>Signs and zeros of the float32 operations\<close>


lemma round_pack_fneg: "round_pack p emax (\<not> s) q e' = fneg (round_pack p emax s q e')"
  by (simp add: round_pack_def)

lemma round_shift_fneg:
  "round_shift p emax (\<not> s) q r h e' = fneg (round_shift p emax s q r h e')"
  by (simp only: round_shift_def round_pack_fneg)

lemma round_at_fneg: "round_at p emax (\<not> s) m e e' = fneg (round_at p emax s m e e')"
  by (simp add: round_at_def round_shift_fneg)

lemma round_fp_fneg:
  "round_fp p emin emax (\<not> s) m e = fneg (round_fp p emin emax s m e)"
  by (simp add: round_fp_def round_at_fneg)

lemma round32_fneg: "round32 (\<not> s) m e = fneg (round32 s m e)"
  by (simp add: round32_def round_fp_fneg)




lemma fmul_fneg_self: "fmul (fneg x) (fneg x) = fmul x x"
  by (cases x) simp_all

lemma scaled_neg: "scaled e0 (\<not> s) m e = - scaled e0 s m e"
  by (simp add: scaled_def)

lemma add_round_swap:
  "add_round t (- c) e0 = (if c = 0 then Fin t 0 (- 149) else fneg (add_round u c e0))"
proof (cases "c = 0")
  case True
  then show ?thesis by (simp add: add_round_def)
next
  case False
  then have "(- c < 0) = (\<not> (c < 0))" by auto
  with False show ?thesis
    by (simp add: add_round_def round32_fneg)
qed

lemma fsub_swap_fin:
  "fsub (Fin s2 m2 e2) (Fin s1 m1 e1) = fsub (Fin s1 m1 e1) (Fin s2 m2 e2)
 \<or> fsub (Fin s2 m2 e2) (Fin s1 m1 e1) = fneg (fsub (Fin s1 m1 e1) (Fin s2 m2 e2))"
proof -
  define e0 where "e0 = min e1 e2"
  define c where "c = scaled e0 s1 m1 e1 - scaled e0 s2 m2 e2"
  have ab: "fsub (Fin s1 m1 e1) (Fin s2 m2 e2) = add_round (s1 \<and> \<not> s2) c e0"
    by (simp add: fsub_def scaled_neg c_def e0_def)
  have "fsub (Fin s2 m2 e2) (Fin s1 m1 e1)
          = add_round (s2 \<and> \<not> s1) (scaled e0 s2 m2 e2 - scaled e0 s1 m1 e1) e0"
    by (simp add: fsub_def scaled_neg e0_def min.commute)
  also have "scaled e0 s2 m2 e2 - scaled e0 s1 m1 e1 = - c"
    by (simp add: c_def)
  finally have ba: "fsub (Fin s2 m2 e2) (Fin s1 m1 e1) = add_round (s2 \<and> \<not> s1) (- c) e0" .
  show ?thesis
  proof (cases "c = 0")
    case True
    show ?thesis
      unfolding ab ba using True by (cases s1; cases s2) (simp_all add: add_round_def)
  next
    case False
    have "add_round (s2 \<and> \<not> s1) (- c) e0 = fneg (add_round (s1 \<and> \<not> s2) c e0)"
      using False add_round_swap [of "s2 \<and> \<not> s1" c e0 "s1 \<and> \<not> s2"] by simp
    then show ?thesis
      unfolding ab ba by simp
  qed
qed

lemma fsub_swap: "fsub b a = fsub a b \<or> fsub b a = fneg (fsub a b)"
proof (cases a)
  case NaN
  then show ?thesis by (cases b) (simp_all add: fsub_def)
next
  case (Inf s)
  then show ?thesis by (cases b) (auto simp: fsub_def)
next
  case a: (Fin s1 m1 e1)
  show ?thesis
  proof (cases b)
    case NaN
    then show ?thesis by (simp add: a fsub_def)
  next
    case (Inf t)
    then show ?thesis by (simp add: a fsub_def)
  next
    case (Fin s2 m2 e2)
    then show ?thesis
      using fsub_swap_fin [of s2 m2 e2 s1 m1 e1] by (simp only: a)
  qed
qed

lemma square_fsub_swap: "fmul (fsub b a) (fsub b a) = fmul (fsub a b) (fsub a b)"
  using fsub_swap [of b a] by (auto simp: fmul_fneg_self)
























lemma square_zero: "fmul (Fin s 0 e) (Fin s 0 e) = zero32"
  by (simp add: round32_def round_fp_def zero32_def)

lemma fadd_zero32: "fadd zero32 zero32 = zero32"
  by (simp add: zero32_def add_round_def scaled_def)

lemma ffma_zero: "ffma (Fin s 0 e) (Fin s 0 e) zero32 = zero32"
  by (simp add: zero32_def add_round_def scaled_def)

lemma run_plan_zeros:
  assumes "\<forall>x \<in> set d. \<exists>s e. x = Fin s 0 e"
  shows "run_plan p d d = zero32"
proof (induction p)
  case (Prod i)
  show ?case
  proof (cases "i < length d")
    case True
    then obtain s e where "d ! i = Fin s 0 e" using assms by (metis nth_mem)
    then show ?thesis using True by (simp add: round32_def round_fp_def zero32_def)
  next
    case False
    then show ?thesis by simp
  qed
next
  case (Add p q)
  then show ?case by (simp add: fadd_zero32)
next
  case (Fma i p)
  show ?case
  proof (cases "i < length d")
    case True
    then obtain s e where "d ! i = Fin s 0 e" using assms by (metis nth_mem)
    then show ?thesis using True Fma by (simp add: zero32_def add_round_def scaled_def)
  next
    case False
    then show ?thesis using Fma by simp
  qed
qed




lemma fp_eq_zero32: "fp_eq x zero32 \<Longrightarrow> \<exists>s e. x = Fin s 0 e"
  by (cases x) (auto simp: zero32_def scaled_def split: if_splits)

lemma square_of_zero: "fmul (Fin s 0 e) (Fin s 0 e) = zero32"
  by (simp add: round32_def round_fp_def zero32_def)

lemma norm_zero_vector:
  assumes "\<forall>x \<in> set d. fp_eq x zero32"
  shows "linalg_norm np d = zero32"
proof -
  have "\<forall>x \<in> set d. \<exists>s e. x = Fin s 0 e"
    using assms fp_eq_zero32 by blast
  then have "dot_sum np d d = zero32"
    by (simp add: dot_sum_def run_plan_zeros)
  then show ?thesis
    by (simp add: linalg_norm_def zero32_def)
qed


subsection \<open>The range of rounding, and float32 values as Python floats\<close>

lemma bitlen_bound: "m < 2 ^ bitlen m"
proof (induction m rule: bitlen.induct)
  case (1 n)
  show ?case
  proof (cases "n = 0")
    case True
    then show ?thesis by (simp add: bitlen.simps)
  next
    case False
    then have "n div 2 < 2 ^ bitlen (n div 2)" using "1.IH" by simp
    then have "n < 2 * 2 ^ bitlen (n div 2)" by linarith
    moreover have "bitlen n = bitlen (n div 2) + 1"
      using False by (subst bitlen.simps) simp
    ultimately show ?thesis by simp
  qed
qed

lemma bitlen_le: "m < 2 ^ k \<Longrightarrow> bitlen m \<le> k"
proof (induction m arbitrary: k rule: bitlen.induct)
  case (1 n)
  show ?case
  proof (cases "n = 0")
    case True
    then show ?thesis by (simp add: bitlen.simps)
  next
    case False
    then obtain j where k: "k = Suc j"
      using "1.prems" by (cases k) auto
    have "n div 2 < 2 ^ j" using "1.prems" k by auto
    then have "bitlen (n div 2) \<le> j" using "1.IH" False by simp
    moreover have "bitlen n = bitlen (n div 2) + 1"
      using False by (subst bitlen.simps) simp
    ultimately show ?thesis using k by simp
  qed
qed

lemma round_pack_range:
  assumes "round_pack p emax s q e' = Fin t q' e''" and "0 < p" and "q \<le> 2 ^ p" and "emin \<le> e'"
  shows "t = s \<and> q' < 2 ^ p \<and> emin \<le> e'' \<and> e'' \<le> emax"
  using assms by (auto simp: round_pack_def split: if_splits)

lemma round_at_range:
  assumes r: "round_at p emax s m e e' = Fin t q' e''"
    and p: "0 < p" and e': "emin \<le> e'" and b: "e + int (bitlen m) - int p \<le> e'"
  shows "t = s \<and> q' < 2 ^ p \<and> emin \<le> e'' \<and> e'' \<le> emax"
proof (cases "e' \<le> e")
  case True
  with r have eq: "t = s" "q' = m * 2 ^ nat (e - e')" "e'' = e'" and le: "e' \<le> emax"
    by (auto simp: round_at_def split: if_splits)
  have "bitlen m + nat (e - e') \<le> p" using b True by linarith
  then have "(2::nat) ^ (bitlen m + nat (e - e')) \<le> 2 ^ p"
    by (intro power_increasing) auto
  moreover have "m * 2 ^ nat (e - e') < 2 ^ bitlen m * 2 ^ nat (e - e')"
    using bitlen_bound [of m] by simp
  ultimately have "m * 2 ^ nat (e - e') < 2 ^ p"
    unfolding power_add by linarith
  then have "q' < 2 ^ p"
    by (simp only: eq)
  then show ?thesis using eq le e' by simp
next
  case False
  define sh where "sh = nat (e' - e)"
  from False r have rs: "round_shift p emax s (m div 2 ^ sh) (m mod 2 ^ sh) (2 ^ (sh - 1)) e'
                           = Fin t q' e''"
    by (simp add: round_at_def sh_def)
  have "bitlen m \<le> sh + p" using b False by (simp add: sh_def)
  then have "(2::nat) ^ bitlen m \<le> 2 ^ (sh + p)"
    by (intro power_increasing) auto
  then have "m < 2 ^ sh * 2 ^ p"
    using bitlen_bound [of m] by (simp add: power_add)
  then have "m div 2 ^ sh < 2 ^ p"
    by (simp add: less_mult_imp_div_less mult.commute)
  then have "(if 2 ^ (sh - 1) < m mod 2 ^ sh \<or> (m mod 2 ^ sh = 2 ^ (sh - 1) \<and> odd (m div 2 ^ sh))
              then m div 2 ^ sh + 1 else m div 2 ^ sh) \<le> 2 ^ p"
    by simp
  with rs show ?thesis
    unfolding round_shift_def using round_pack_range [OF _ p _ e'] by blast
qed

lemma round_fp_range:
  assumes "round_fp p emin emax s m e = Fin t q' e''" and "0 < p" and "emin \<le> emax"
  shows "t = s \<and> q' < 2 ^ p \<and> emin \<le> e'' \<and> e'' \<le> emax"
proof (cases "m = 0")
  case True
  with assms show ?thesis by (simp add: round_fp_def)
next
  case False
  with assms(1) have "round_at p emax s m e (max emin (e + int (bitlen m) - int p)) = Fin t q' e''"
    by (simp add: round_fp_def)
  then show ?thesis
    by (rule round_at_range [OF _ assms(2)]) simp_all
qed

lemma to_float32_range:
  "to_float32 x = Fin t q e \<Longrightarrow> q < 2 ^ 24 \<and> - 149 \<le> e \<and> e \<le> 104"
  by (cases x) (auto simp: round32_def dest!: round_fp_range)

lemma fp_eq_shift: "e' \<le> e \<Longrightarrow> fp_eq (Fin s (m * 2 ^ nat (e - e')) e') (Fin s m e)"
  by (simp add: scaled_def min_def)

lemma round64_exact:
  assumes "q < 2 ^ 24" and "- 149 \<le> e" and "e \<le> 104"
  shows "fp_eq (round64 s q e) (Fin s q e)"
proof (cases "q = 0")
  case True
  then show ?thesis by (simp add: round64_def round_fp_def scaled_def)
next
  case False
  define e' where "e' = max (- 1074) (e + int (bitlen q) - 53)"
  have "bitlen q \<le> 24" using assms(1) by (rule bitlen_le)
  then have le: "e' \<le> e" and mx: "\<not> 971 < e'"
    using assms(2,3) by (auto simp: e'_def)
  have "round64 s q e = round_at 53 971 s q e e'"
    using False by (simp add: round64_def round_fp_def e'_def)
  also have "\<dots> = Fin s (q * 2 ^ nat (e - e')) e'"
    using le mx by (simp add: round_at_def)
  finally show ?thesis
    using fp_eq_shift [OF le] by simp
qed

lemma widen_exact:
  "to_float32 x = NaN \<and> to_float64 (to_float32 x) = NaN
 \<or> fp_eq (to_float64 (to_float32 x)) (to_float32 x)"
proof (cases "to_float32 x")
  case NaN
  then show ?thesis by simp
next
  case (Inf s)
  then show ?thesis by simp
next
  case (Fin t q e)
  then show ?thesis
    using to_float32_range [OF Fin] by (simp add: round64_exact)
qed

lemma finite_widen: "is_finite (to_float64 (to_float32 x)) = is_finite (to_float32 x)"
  using widen_exact [of x]
  by (cases "to_float32 x"; cases "to_float64 (to_float32 x)") auto

lemma to_list_fresh:
  "to_list (fst (Vector_init h (PyList xs))) (snd (Vector_init h (PyList xs)))
     = map (\<lambda>x. to_float64 (to_float32 x)) xs"
  by (simp add: Vector_init_def alloc_def to_list_def)

lemma finite_to_list_fresh:
  "list_all is_finite (map (\<lambda>x. to_float64 (to_float32 x)) xs)
     = list_all (\<lambda>x. is_finite (to_float32 x)) xs"
  by (induction xs) (simp_all add: finite_widen)

section \<open>Properties of the client\<close>

lemma request'_eq:
  "session_request lib (session self)
     \<lparr>req_method = m, req_base = base_url self, req_endpoint = ep,
      req_timeout = timeout self, req_payload = pl\<rparr> = (s', Inr r)
   \<Longrightarrow> request' lib self m ep pl = (self\<lparr>session := s'\<rparr>, Inr r)"
  by (simp add: request'_def)

lemma compliant_strings [simp]: "list_all json_compliant (map JString ks)"
  by (induction ks) simp_all

lemma compliant_floats [simp]: "list_all json_compliant (map JFloat xs) = list_all is_finite xs"
  by (induction xs) simp_all

lemma compliant_operations [simp]:
  "list_all json_compliant
     (map (\<lambda>(k, v). JObject [(''type'', JString ''PUT''), (''key'', JString k),
                                (''value'', JString v)]) items)"
  by (induction items) auto

lemma compliant_wire_floats [simp]:
  "list_all json_compliant (map (\<lambda>x. JFloat (to_float64 (to_float32 x))) xs)
     = list_all (\<lambda>x. is_finite (to_float32 x)) xs"
  by (induction xs) (simp_all add: finite_widen)

lemma request'_refused:
  "\<not> encodable pl \<Longrightarrow>
     request' (wire_lib server) self m ep pl =
       (self, Inl (VectisConnectionError
                     ''Request failed: Out of range float values are not JSON compliant''))"
  by (simp add: request'_def wire_lib_def)

lemma request'_wire:
  "encodable pl \<Longrightarrow> request' (wire_lib server) self m ep pl =
     (let req = \<lparr>req_method = m, req_base = base_url self, req_endpoint = ep,
                 req_timeout = timeout self, req_payload = pl\<rparr>;
          self' = self\<lparr>session := \<lparr>sent = sent (session self) @ [req], pooled = True\<rparr>\<rparr>
      in case server req of
           Inl e \<Rightarrow> (self', Inl (VectisConnectionError (''Request failed: '' @ e)))
         | Inr r \<Rightarrow> (self', Inr r))"
  by (simp add: request'_def wire_lib_def Let_def split: sum.splits)

lemma wire_req:
  "encodable (req_payload req) \<Longrightarrow>
   session_request (wire_lib server) (session client0) req =
     (\<lparr>sent = [req], pooled = True\<rparr>, server req)"
  by (simp add: wire_lib_def client0_def)

text \<open>
  C8. \<open>get\<close> tells three outcomes apart by the status of the reply: 404 returns
  \<open>None\<close> and raises nothing, 200 returns the body of the reply, and every other
  status raises \<open>VectisError\<close> with the body of the reply in its message.
\<close>

theorem get_outcomes:
  assumes "session_request lib (session self)
             \<lparr>req_method = ''GET'', req_base = base_url self, req_endpoint = ''/api/get'',
              req_timeout = timeout self, req_payload = Params [(''key'', JString key)]\<rparr>
           = (s', Inr r)"
  shows "(status_code r = 404 \<longrightarrow> snd (get lib self key) = Inr None)
       \<and> (status_code r = 200 \<longrightarrow> snd (get lib self key) = Inr (Some (body_text r)))
       \<and> (status_code r \<noteq> 404 \<and> status_code r \<noteq> 200 \<longrightarrow>
            snd (get lib self key) = Inl (VectisError (''GET failed: '' @ body_text r)))"
  using request'_eq [OF assms] by (simp add: get_def)

theorem get_outcomes_witness:
  "snd (get (wire_lib (answer 404 '''' None)) client0 ''a'') = Inr None
 \<and> snd (get (wire_lib (answer 200 ''1'' None)) client0 ''a'') = Inr (Some ''1'')
 \<and> snd (get (wire_lib (answer 500 ''boom'' None)) client0 ''a'')
      = Inl (VectisError ''GET failed: boom'')"
  using get_outcomes [of "wire_lib (answer 404 '''' None)" client0 "''a''"
           "\<lparr>sent = [\<lparr>req_method = ''GET'', req_base = base_url client0, req_endpoint = ''/api/get'',
              req_timeout = timeout client0, req_payload = Params [(''key'', JString ''a'')]\<rparr>], pooled = True\<rparr>"
           "\<lparr>status_code = 404, body_text = '''', body_json = None\<rparr>"]
        get_outcomes [of "wire_lib (answer 200 ''1'' None)" client0 "''a''"
           "\<lparr>sent = [\<lparr>req_method = ''GET'', req_base = base_url client0, req_endpoint = ''/api/get'',
              req_timeout = timeout client0, req_payload = Params [(''key'', JString ''a'')]\<rparr>], pooled = True\<rparr>"
           "\<lparr>status_code = 200, body_text = ''1'', body_json = None\<rparr>"]
        get_outcomes [of "wire_lib (answer 500 ''boom'' None)" client0 "''a''"
           "\<lparr>sent = [\<lparr>req_method = ''GET'', req_base = base_url client0, req_endpoint = ''/api/get'',
              req_timeout = timeout client0, req_payload = Params [(''key'', JString ''a'')]\<rparr>], pooled = True\<rparr>"
           "\<lparr>status_code = 500, body_text = ''boom'', body_json = None\<rparr>"]
  by (simp add: wire_req answer_def)

lemma dict_of_foldl:
  "foldl (\<lambda>d (k, v). d(k \<mapsto> v)) m kvs = m ++ map_of (rev kvs)"
  by (induction kvs arbitrary: m) (auto simp: map_add_def fun_eq_iff split: option.splits)

lemma dict_of_map_of: "dict_of kvs = map_of (rev kvs)"
  by (simp add: dict_of_def dict_of_foldl)

lemma dom_dict_of: "dom (dict_of kvs) = fst ` set kvs"
  by (simp add: dict_of_map_of dom_map_of_conv_image_fst)

lemma dict_of_distinct:
  "distinct (map fst kvs) \<Longrightarrow> (k, v) \<in> set kvs \<Longrightarrow> dict_of kvs k = Some v"
  by (simp add: dict_of_map_of distinct_rev rev_map [symmetric])

lemma dict_of_snoc: "dict_of (kvs @ [(k, v)]) = (dict_of kvs)(k \<mapsto> v)"
  by (simp add: dict_of_def)

lemma dict_of_last:
  "i < length kvs \<Longrightarrow>
     (\<forall>j. i < j \<and> j < length kvs \<longrightarrow> fst (kvs ! j) \<noteq> fst (kvs ! i)) \<Longrightarrow>
     dict_of kvs (fst (kvs ! i)) = Some (snd (kvs ! i))"
proof (induction kvs rule: rev_induct)
  case Nil
  then show ?case by simp
next
  case (snoc x xs)
  obtain k v where x: "x = (k, v)" by (cases x)
  show ?case
  proof (cases "i = length xs")
    case True
    then show ?thesis by (simp add: x dict_of_snoc)
  next
    case False
    with snoc.prems(1) have i: "i < length xs" by simp
    from snoc.prems(2) [rule_format, of "length xs"] i
    have "k \<noteq> fst (xs ! i)" by (simp add: x nth_append)
    moreover have "dict_of xs (fst (xs ! i)) = Some (snd (xs ! i))"
    proof (rule snoc.IH [OF i], intro allI impI)
      fix j
      assume j: "i < j \<and> j < length xs"
      with snoc.prems(2) [rule_format, of j] show "fst (xs ! j) \<noteq> fst (xs ! i)"
        by (simp add: nth_append)
    qed
    ultimately show ?thesis using i by (simp add: x dict_of_snoc nth_append)
  qed
qed

lemma paired_fst:
  "map fst (map (\<lambda>(k, v). (k, if py_truthy v then v else JNull)) (zip keys vs))
     = take (length vs) keys"
proof -
  have "map fst (map (\<lambda>(k, v). (k, if py_truthy v then v else JNull)) (zip keys vs))
          = map fst (zip keys vs)"
    by (simp add: case_prod_beta)
  also have "\<dots> = take (min (length keys) (length vs)) keys"
    by (rule map_fst_zip_take)
  also have "\<dots> = take (length vs) keys"
    by (simp add: min_def)
  finally show ?thesis .
qed

lemma batch_get_200:
  assumes "session_request lib (session self)
             \<lparr>req_method = ''POST'', req_base = base_url self,
              req_endpoint = ''/api/batch_get'', req_timeout = timeout self,
              req_payload = Json (JObject [(''keys'', JArray (map JString keys))])\<rparr>
           = (s', Inr r)"
    and "status_code r = 200"
    and "body_json r = Some (JObject kvs)"
    and "map_of kvs ''values'' = Some (JArray vs)"
  shows "snd (batch_get lib self keys) =
           Inr (dict_of (map (\<lambda>(k, v). (k, if py_truthy v then v else JNull)) (zip keys vs)))"
  using request'_eq [OF assms(1)] assms(2-4)
  by (simp add: batch_get_def response_json_def)

text \<open>
  C1, amended. \<open>batch_get\<close> does not compare the lengths of the keys and of the
  values of the reply: \<open>zip\<close> stops at the shorter one. For every key sequence, on a
  reply with status 200 whose \<open>values\<close> is a list, it raises nothing and returns a
  mapping whose keys are the first \<open>min(len(keys), len(values))\<close> request keys. Each
  of these keys is mapped to the value at the last position where it occurs among
  them (to \<open>None\<close> when that value is falsy): the key at position \<open>i\<close> has the
  \<open>i\<close>-th value unless the same key occurs again later, so for keys without
  repetition the pairing is positional. Keys beyond the reply are left out and
  values beyond the keys are dropped.
\<close>

theorem batch_get_pairs_common_prefix:
  assumes "session_request lib (session self)
             \<lparr>req_method = ''POST'', req_base = base_url self,
              req_endpoint = ''/api/batch_get'', req_timeout = timeout self,
              req_payload = Json (JObject [(''keys'', JArray (map JString keys))])\<rparr>
           = (s', Inr r)"
    and "status_code r = 200"
    and "body_json r = Some (JObject kvs)"
    and "map_of kvs ''values'' = Some (JArray vs)"
  shows "\<exists>d. snd (batch_get lib self keys) = Inr d
           \<and> dom d = set (take (min (length keys) (length vs)) keys)
           \<and> (\<forall>i < min (length keys) (length vs).
                (\<forall>j. i < j \<and> j < min (length keys) (length vs) \<longrightarrow> keys ! j \<noteq> keys ! i) \<longrightarrow>
                  d (keys ! i) = Some (if py_truthy (vs ! i) then vs ! i else JNull))
           \<and> (distinct keys \<longrightarrow>
                (\<forall>i < min (length keys) (length vs).
                   d (keys ! i) = Some (if py_truthy (vs ! i) then vs ! i else JNull)))"
proof -
  let ?ps = "map (\<lambda>(k, v). (k, if py_truthy v then v else JNull)) (zip keys vs)"
  let ?n = "min (length keys) (length vs)"
  have res: "snd (batch_get lib self keys) = Inr (dict_of ?ps)"
    by (rule batch_get_200 [OF assms])
  have "dom (dict_of ?ps) = set (map fst ?ps)"
    by (simp only: dom_dict_of set_map)
  then have "dom (dict_of ?ps) = set (take (length vs) keys)"
    by (simp only: paired_fst)
  then have dom: "dom (dict_of ?ps) = set (take ?n keys)"
    by (simp add: min_def)
  have len: "length ?ps = ?n" by simp
  have nth: "?ps ! i = (keys ! i, if py_truthy (vs ! i) then vs ! i else JNull)"
    if "i < ?n" for i
    using that by simp
  have vals: "dict_of ?ps (keys ! i) = Some (if py_truthy (vs ! i) then vs ! i else JNull)"
    if i: "i < ?n" and later: "\<forall>j. i < j \<and> j < ?n \<longrightarrow> keys ! j \<noteq> keys ! i" for i
  proof -
    have "dict_of ?ps (fst (?ps ! i)) = Some (snd (?ps ! i))"
    proof (rule dict_of_last, unfold len, rule i, intro allI impI)
      fix j
      assume j: "i < j \<and> j < ?n"
      then have "keys ! j \<noteq> keys ! i" using later by blast
      then show "fst (?ps ! j) \<noteq> fst (?ps ! i)"
        using nth [of i] nth [of j] i j by simp
    qed
    then show ?thesis using nth [OF i] by simp
  qed
  have dist: "dict_of ?ps (keys ! i) = Some (if py_truthy (vs ! i) then vs ! i else JNull)"
    if d: "distinct keys" and i: "i < ?n" for i
  proof (rule vals [OF i], intro allI impI)
    fix j
    assume "i < j \<and> j < ?n"
    then show "keys ! j \<noteq> keys ! i"
      using d i by (auto simp: nth_eq_iff_index_eq)
  qed
  show ?thesis using res dom vals dist by blast
qed

lemma dict_of_single: "dict_of [(k, v)] = [k \<mapsto> v]"
  by (simp add: dict_of_def)

text \<open>
  C1, as stated, fails. The keys are \<open>["a", "b"]\<close> and the reply carries one value,
  \<open>{"values": ["x"]}\<close>: \<open>batch_get\<close> raises nothing and returns \<open>{"a": "x"}\<close>, a
  mapping without the key \<open>"b"\<close>.
\<close>

theorem batch_get_short_reply_counterexample:
  "\<not> isl (snd (batch_get
              (wire_lib (answer 200 [] (Some (JObject [(''values'', JArray [JString ''x''])]))))
              client0 [''a'', ''b'']))
 \<and> projr (snd (batch_get
              (wire_lib (answer 200 [] (Some (JObject [(''values'', JArray [JString ''x''])]))))
              client0 [''a'', ''b''])) ''a'' = Some (JString ''x'')
 \<and> projr (snd (batch_get
              (wire_lib (answer 200 [] (Some (JObject [(''values'', JArray [JString ''x''])]))))
              client0 [''a'', ''b''])) ''b'' = None"
  by (simp add: batch_get_def request'_wire answer_def response_json_def dict_of_single)

theorem batch_get_pairs_common_prefix_witness:
  "\<exists>d. snd (batch_get
              (wire_lib (answer 200 []
                 (Some (JObject [(''values'', JArray [JString ''x'', JString ''y'', JString ''z''])]))))
              client0 [''a'', ''a'']) = Inr d
     \<and> dom d = {''a''}
     \<and> d ''a'' = Some (JString ''y'')"
  using batch_get_pairs_common_prefix
    [of "wire_lib (answer 200 []
           (Some (JObject [(''values'', JArray [JString ''x'', JString ''y'', JString ''z''])])))"
        client0 "[''a'', ''a'']"
        "\<lparr>sent = [\<lparr>req_method = ''POST'', req_base = base_url client0,
                    req_endpoint = ''/api/batch_get'', req_timeout = timeout client0,
                    req_payload = Json (JObject [(''keys'', JArray (map JString [''a'', ''a'']))])\<rparr>],
          pooled = True\<rparr>"
        "\<lparr>status_code = 200, body_text = [],
          body_json = Some (JObject [(''values'', JArray [JString ''x'', JString ''y'', JString ''z''])])\<rparr>"
        "[(''values'', JArray [JString ''x'', JString ''y'', JString ''z''])]"
        "[JString ''x'', JString ''y'', JString ''z'']"]
  by (auto simp: wire_req answer_def less_Suc_eq)

text \<open>
  As long as no stored value is the empty string, \<open>batch_get\<close> on distinct keys
  against the remote store returns a mapping over exactly the requested keys, and
  each key has the value that \<open>get\<close> returns for it.
\<close>

lemma remote_batch_get:
  "remote store \<lparr>req_method = m, req_base = b, req_endpoint = ''/api/batch_get'',
                  req_timeout = t,
                  req_payload = Json (JObject [(''keys'', JArray (map JString keys))])\<rparr>
     = Inr \<lparr>status_code = 200, body_text = [],
            body_json = Some (JObject [(''values'',
              JArray (map (\<lambda>k. case store k of None \<Rightarrow> JNull | Some v \<Rightarrow> JString v) keys))])\<rparr>"
  by (simp add: remote_def comp_def)

lemma remote_get:
  "remote store \<lparr>req_method = m, req_base = b, req_endpoint = ''/api/get'',
                  req_timeout = t, req_payload = Params [(''key'', JString k)]\<rparr>
     = (case store k of
          None \<Rightarrow> Inr \<lparr>status_code = 404, body_text = [], body_json = None\<rparr>
        | Some v \<Rightarrow> Inr \<lparr>status_code = 200, body_text = v, body_json = None\<rparr>)"
  by (simp add: remote_def)

lemma get_remote: "snd (get (wire_lib (remote store)) self k) = Inr (store k)"
  by (simp add: get_def request'_wire remote_get Let_def split: option.splits)

lemma batch_get_remote:
  "snd (batch_get (wire_lib (remote store)) self keys)
     = Inr (dict_of (map (\<lambda>(k, v). (k, if py_truthy v then v else JNull))
              (zip keys (map (\<lambda>k. case store k of None \<Rightarrow> JNull | Some v \<Rightarrow> JString v) keys))))"
  by (simp add: batch_get_def request'_wire remote_batch_get Let_def response_json_def)

lemma batch_get_agrees_with_get:
  assumes "distinct keys" and "\<forall>k \<in> set keys. store k \<noteq> Some []"
  shows "\<exists>d. snd (batch_get (wire_lib (remote store)) self keys) = Inr d
           \<and> dom d = set keys
           \<and> (\<forall>k \<in> set keys.
                 d k = Some (case store k of None \<Rightarrow> JNull | Some v \<Rightarrow> JString v)
               \<and> snd (get (wire_lib (remote store)) self k) = Inr (store k))"
proof -
  let ?f = "\<lambda>k. case store k of None \<Rightarrow> JNull | Some v \<Rightarrow> JString v"
  let ?ps = "map (\<lambda>(k, v). (k, if py_truthy v then v else JNull)) (zip keys (map ?f keys))"
  have truthy: "(if py_truthy (?f k) then ?f k else JNull) = ?f k" if "k \<in> set keys" for k
    using assms(2) that by (auto split: option.splits)
  have "?ps = map (\<lambda>k. (k, if py_truthy (?f k) then ?f k else JNull)) keys"
    by (simp add: zip_map2 zip_same_conv_map comp_def case_prod_beta)
  also have "\<dots> = map (\<lambda>k. (k, ?f k)) keys"
    using truthy by (intro map_cong) auto
  finally have ps: "?ps = map (\<lambda>k. (k, ?f k)) keys" .
  have dom: "dom (dict_of ?ps) = set keys"
    by (simp add: ps dom_dict_of image_image)
  have val: "dict_of ?ps k = Some (?f k)" if "k \<in> set keys" for k
  proof (rule dict_of_distinct)
    show "distinct (map fst ?ps)"
      using assms(1) by (simp add: ps comp_def)
    show "(k, ?f k) \<in> set ?ps"
      using that by (auto simp: ps)
  qed
  show ?thesis
    using batch_get_remote [of store self keys] dom val get_remote [of store self] by auto
qed

text \<open>
  C3 fails on a stored empty string. With the store \<open>{"k": ""}\<close>, \<open>get("k")\<close>
  returns the empty string, but \<open>batch_get(["k"])\<close> returns \<open>{"k": None}\<close>: the test
  \<open>v if v else None\<close> takes the empty string for a missing value.
\<close>

theorem batch_get_empty_string_absent:
  "\<not> isl (snd (batch_get (wire_lib (remote [''k'' \<mapsto> []])) client0 [''k'']))
 \<and> projr (snd (batch_get (wire_lib (remote [''k'' \<mapsto> []])) client0 [''k''])) ''k''
       = Some JNull
 \<and> snd (get (wire_lib (remote [''k'' \<mapsto> []])) client0 ''k'') = Inr (Some [])"
  by (simp add: batch_get_def get_def request'_wire remote_def response_json_def dict_of_single)

lemma close_wire:
  "close (wire_lib server) self = self\<lparr>session := (session self)\<lparr>pooled := False\<rparr>\<rparr>"
  by (simp add: close_def wire_lib_def)

lemma request'_sent:
  "encodable pl \<Longrightarrow>
   sent (session (fst (request' (wire_lib server) self m ep pl)))
     = sent (session self) @ [\<lparr>req_method = m, req_base = base_url self, req_endpoint = ep,
                               req_timeout = timeout self, req_payload = pl\<rparr>]"
  by (simp add: request'_wire Let_def split: sum.splits)

lemma request'_sent_closed:
  "encodable pl \<Longrightarrow>
   sent (session (fst (request' (wire_lib server) (close (wire_lib server) self) m ep pl)))
     = sent (session self) @ [\<lparr>req_method = m, req_base = base_url self, req_endpoint = ep,
                               req_timeout = timeout self, req_payload = pl\<rparr>]"
  by (simp add: request'_sent close_wire)

lemma put_fst:
  "fst (put lib self key val)
     = fst (request' lib self ''POST'' ''/api/put''
              (FormData [(''key'', key), (''value'', val)]))"
  by (auto simp: put_def split: prod.splits sum.splits)

lemma get_fst:
  "fst (get lib self key)
     = fst (request' lib self ''GET'' ''/api/get''
              (Params [(''key'', JString key)]))"
  by (auto simp: get_def split: prod.splits sum.splits)

lemma delete_fst:
  "fst (delete lib self key)
     = fst (request' lib self ''POST'' ''/api/delete''
              (FormData [(''key'', key)]))"
  by (auto simp: delete_def split: prod.splits sum.splits)

lemma batch_put_fst:
  "fst (batch_put lib self items)
     = fst (request' lib self ''POST'' ''/api/batch''
              (Json (JObject [(''operations'', JArray (map (\<lambda>(k, v). JObject [(''type'', JString ''PUT''), (''key'', JString k), (''value'', JString v)]) items))])))"
  by (auto simp: batch_put_def Let_def split: prod.splits sum.splits)

lemma batch_get_fst:
  "fst (batch_get lib self keys)
     = fst (request' lib self ''POST'' ''/api/batch_get''
              (Json (JObject [(''keys'', JArray (map JString keys))])))"
  by (auto simp: batch_get_def split: prod.splits sum.splits)

lemma scan_fst:
  "fst (scan lib self start stop limit reverse)
     = fst (request' lib self ''GET'' ''/api/scan''
              (Params [(''start'', JString start), (''end'', JString stop), (''limit'', JInt limit), (''reverse'', JString (if reverse then ''true'' else ''false''))]))"
  by (auto simp: scan_def Let_def split: prod.splits sum.splits)

lemma put_vector_fst:
  "fst (put_vector lib h self key vector)
     = fst (request' lib self ''POST'' ''/api/vector/put''
              (Json (JObject [(''key'', JString key), (''vector'', JArray (map JFloat (to_list (fst (Vector_init h (PyList vector))) (snd (Vector_init h (PyList vector))))))])))"
  by (auto simp: put_vector_def split: prod.splits sum.splits)

lemma get_vector_fst:
  "fst (get_vector lib np h self key)
     = fst (request' lib self ''GET'' ''/api/vector/get''
              (Params [(''key'', JString key)]))"
  by (auto simp: get_vector_def split: prod.splits sum.splits)

lemma search_similar_fst:
  "fst (search_similar lib h self query k)
     = fst (request' lib self ''POST'' ''/api/vector/search''
              (Json (JObject [(''query'', JArray (map JFloat (to_list (fst (Vector_init h (PyList query))) (snd (Vector_init h (PyList query)))))), (''k'', JInt k)])))"
  by (auto simp: search_similar_def split: prod.splits sum.splits)

lemma get_stats_fst:
  "fst (get_stats lib self)
     = fst (request' lib self ''GET'' ''/api/stats''
              (NoPayload))"
  by (auto simp: get_stats_def split: prod.splits sum.splits)

lemma health_check_fst:
  "fst (health_check lib self)
     = fst (request' lib self ''GET'' ''/api/health''
              (NoPayload))"
  by (auto simp: health_check_def split: prod.splits sum.splits)

text \<open>
  C4, as stated, fails. On a client that was closed, \<open>put\<close> hands its request to
  the session and returns normally when the reply has status 200.
\<close>

theorem put_after_close_counterexample:
  "snd (put (wire_lib (answer 200 ''OK'' None))
          (close (wire_lib (answer 200 ''OK'' None)) client0) ''k'' ''v'') = Inr ()
 \<and> sent (session (fst (put (wire_lib (answer 200 ''OK'' None))
          (close (wire_lib (answer 200 ''OK'' None)) client0) ''k'' ''v'')))
     = [\<lparr>req_method = ''POST'', req_base = ''http://localhost:8080'',
         req_endpoint = ''/api/put'', req_timeout = 30,
         req_payload = FormData [(''key'', ''k''), (''value'', ''v'')]\<rparr>]"
  by (simp add: put_def close_wire request'_wire answer_def client0_def)

lemma request'_after_close:
  assumes "\<forall>req. snd (session_request lib (session_close lib (session self)) req)
                = snd (session_request lib (session self) req)"
  shows "snd (request' lib (close lib self) m ep pl) = snd (request' lib self m ep pl)"
proof -
  let ?req = "\<lparr>req_method = m, req_base = base_url self, req_endpoint = ep,
                req_timeout = timeout self, req_payload = pl\<rparr>"
  have "snd (session_request lib (session_close lib (session self)) ?req)
          = snd (session_request lib (session self) ?req)"
    using assms by blast
  then show ?thesis
    by (cases "session_request lib (session_close lib (session self)) ?req";
        cases "session_request lib (session self) ?req")
       (auto simp: request'_def close_def split: sum.splits)
qed

text \<open>
  C4, amended. The client has no state of its own that \<open>close\<close> changes: \<open>close\<close>
  closes the session of the HTTP library and nothing else. After \<open>close\<close> every
  operation still hands its request to the session: on a session that records
  what it is given, the request of the operation is appended to the record
  (for \<open>put_vector\<close> and \<open>search_similar\<close> when every component is finite in
  \<open>float32\<close>, since the library refuses to encode any other). And whenever the
  closed session answers requests as the open one does, each operation returns
  or raises on the closed client exactly what it returns or raises on the open one.
\<close>

theorem operations_after_close:
  assumes "\<forall>req. snd (session_request lib (session_close lib (session self)) req)
                = snd (session_request lib (session self) req)"
  shows "snd (put lib (close lib self) key val) = snd (put lib self key val)
       \<and> snd (get lib (close lib self) key) = snd (get lib self key)
       \<and> snd (delete lib (close lib self) key) = snd (delete lib self key)
       \<and> snd (batch_put lib (close lib self) items) = snd (batch_put lib self items)
       \<and> snd (batch_get lib (close lib self) keys) = snd (batch_get lib self keys)
       \<and> snd (scan lib (close lib self) start stop limit reverse) = snd (scan lib self start stop limit reverse)
       \<and> snd (put_vector lib h (close lib self) key vector) = snd (put_vector lib h self key vector)
       \<and> snd (get_vector lib np h (close lib self) key) = snd (get_vector lib np h self key)
       \<and> snd (search_similar lib h (close lib self) query k) = snd (search_similar lib h self query k)
       \<and> snd (get_stats lib (close lib self)) = snd (get_stats lib self)
       \<and> snd (health_check lib (close lib self)) = snd (health_check lib self)
       \<and> sent (session (fst (put (wire_lib server) (close (wire_lib server) w) key val)))
            = sent (session w) @
                [\<lparr>req_method = ''POST'', req_base = base_url w, req_endpoint = ''/api/put'',
                  req_timeout = timeout w,
                  req_payload = FormData [(''key'', key), (''value'', val)]\<rparr>]
       \<and> sent (session (fst (get (wire_lib server) (close (wire_lib server) w) key)))
            = sent (session w) @
                [\<lparr>req_method = ''GET'', req_base = base_url w, req_endpoint = ''/api/get'',
                  req_timeout = timeout w,
                  req_payload = Params [(''key'', JString key)]\<rparr>]
       \<and> sent (session (fst (delete (wire_lib server) (close (wire_lib server) w) key)))
            = sent (session w) @
                [\<lparr>req_method = ''POST'', req_base = base_url w, req_endpoint = ''/api/delete'',
                  req_timeout = timeout w,
                  req_payload = FormData [(''key'', key)]\<rparr>]
       \<and> sent (session (fst (batch_put (wire_lib server) (close (wire_lib server) w) items)))
            = sent (session w) @
                [\<lparr>req_method = ''POST'', req_base = base_url w, req_endpoint = ''/api/batch'',
                  req_timeout = timeout w,
                  req_payload = Json (JObject [(''operations'', JArray (map (\<lambda>(k, v). JObject [(''type'', JString ''PUT''), (''key'', JString k), (''value'', JString v)]) items))])\<rparr>]
       \<and> sent (session (fst (batch_get (wire_lib server) (close (wire_lib server) w) keys)))
            = sent (session w) @
                [\<lparr>req_method = ''POST'', req_base = base_url w, req_endpoint = ''/api/batch_get'',
                  req_timeout = timeout w,
                  req_payload = Json (JObject [(''keys'', JArray (map JString keys))])\<rparr>]
       \<and> sent (session (fst (scan (wire_lib server) (close (wire_lib server) w) start stop limit reverse)))
            = sent (session w) @
                [\<lparr>req_method = ''GET'', req_base = base_url w, req_endpoint = ''/api/scan'',
                  req_timeout = timeout w,
                  req_payload = Params [(''start'', JString start), (''end'', JString stop), (''limit'', JInt limit), (''reverse'', JString (if reverse then ''true'' else ''false''))]\<rparr>]
       \<and> (list_all (\<lambda>x. is_finite (to_float32 x)) vector \<longrightarrow>
          sent (session (fst (put_vector (wire_lib server) h (close (wire_lib server) w) key vector)))
            = sent (session w) @
                [\<lparr>req_method = ''POST'', req_base = base_url w, req_endpoint = ''/api/vector/put'',
                  req_timeout = timeout w,
                  req_payload = Json (JObject [(''key'', JString key), (''vector'', JArray (map (\<lambda>x. JFloat (to_float64 (to_float32 x))) vector))])\<rparr>])
       \<and> sent (session (fst (get_vector (wire_lib server) np h (close (wire_lib server) w) key)))
            = sent (session w) @
                [\<lparr>req_method = ''GET'', req_base = base_url w, req_endpoint = ''/api/vector/get'',
                  req_timeout = timeout w,
                  req_payload = Params [(''key'', JString key)]\<rparr>]
       \<and> (list_all (\<lambda>x. is_finite (to_float32 x)) query \<longrightarrow>
          sent (session (fst (search_similar (wire_lib server) h (close (wire_lib server) w) query k)))
            = sent (session w) @
                [\<lparr>req_method = ''POST'', req_base = base_url w, req_endpoint = ''/api/vector/search'',
                  req_timeout = timeout w,
                  req_payload = Json (JObject [(''query'', JArray (map (\<lambda>x. JFloat (to_float64 (to_float32 x))) query)), (''k'', JInt k)])\<rparr>])
       \<and> sent (session (fst (get_stats (wire_lib server) (close (wire_lib server) w))))
            = sent (session w) @
                [\<lparr>req_method = ''GET'', req_base = base_url w, req_endpoint = ''/api/stats'',
                  req_timeout = timeout w,
                  req_payload = NoPayload\<rparr>]
       \<and> sent (session (fst (health_check (wire_lib server) (close (wire_lib server) w))))
            = sent (session w) @
                [\<lparr>req_method = ''GET'', req_base = base_url w, req_endpoint = ''/api/health'',
                  req_timeout = timeout w,
                  req_payload = NoPayload\<rparr>]"
proof -
  note rq = request'_after_close [OF assms]
  have c1: "snd (put lib (close lib self) key val) = snd (put lib self key val)"
    using rq [of "''POST''" "''/api/put''" "FormData [(''key'', key), (''value'', val)]"]
    by (cases "request' lib (close lib self) ''POST'' ''/api/put'' (FormData [(''key'', key), (''value'', val)])";
        cases "request' lib self ''POST'' ''/api/put'' (FormData [(''key'', key), (''value'', val)])")
       (auto simp: put_def split: sum.splits prod.splits)
  have c2: "snd (get lib (close lib self) key) = snd (get lib self key)"
    using rq [of "''GET''" "''/api/get''" "Params [(''key'', JString key)]"]
    by (cases "request' lib (close lib self) ''GET'' ''/api/get'' (Params [(''key'', JString key)])";
        cases "request' lib self ''GET'' ''/api/get'' (Params [(''key'', JString key)])")
       (auto simp: get_def split: sum.splits prod.splits)
  have c3: "snd (delete lib (close lib self) key) = snd (delete lib self key)"
    using rq [of "''POST''" "''/api/delete''" "FormData [(''key'', key)]"]
    by (cases "request' lib (close lib self) ''POST'' ''/api/delete'' (FormData [(''key'', key)])";
        cases "request' lib self ''POST'' ''/api/delete'' (FormData [(''key'', key)])")
       (auto simp: delete_def split: sum.splits prod.splits)
  have c4: "snd (batch_put lib (close lib self) items) = snd (batch_put lib self items)"
    using rq [of "''POST''" "''/api/batch''" "Json (JObject [(''operations'', JArray (map (\<lambda>(k, v). JObject [(''type'', JString ''PUT''), (''key'', JString k), (''value'', JString v)]) items))])"]
    by (cases "request' lib (close lib self) ''POST'' ''/api/batch'' (Json (JObject [(''operations'', JArray (map (\<lambda>(k, v). JObject [(''type'', JString ''PUT''), (''key'', JString k), (''value'', JString v)]) items))]))";
        cases "request' lib self ''POST'' ''/api/batch'' (Json (JObject [(''operations'', JArray (map (\<lambda>(k, v). JObject [(''type'', JString ''PUT''), (''key'', JString k), (''value'', JString v)]) items))]))")
       (auto simp: batch_put_def Let_def split: sum.splits prod.splits)
  have c5: "snd (batch_get lib (close lib self) keys) = snd (batch_get lib self keys)"
    using rq [of "''POST''" "''/api/batch_get''" "Json (JObject [(''keys'', JArray (map JString keys))])"]
    by (cases "request' lib (close lib self) ''POST'' ''/api/batch_get'' (Json (JObject [(''keys'', JArray (map JString keys))]))";
        cases "request' lib self ''POST'' ''/api/batch_get'' (Json (JObject [(''keys'', JArray (map JString keys))]))")
       (auto simp: batch_get_def split: sum.splits prod.splits)
  have c6: "snd (scan lib (close lib self) start stop limit reverse) = snd (scan lib self start stop limit reverse)"
    using rq [of "''GET''" "''/api/scan''" "Params [(''start'', JString start), (''end'', JString stop), (''limit'', JInt limit), (''reverse'', JString (if reverse then ''true'' else ''false''))]"]
    by (cases "request' lib (close lib self) ''GET'' ''/api/scan'' (Params [(''start'', JString start), (''end'', JString stop), (''limit'', JInt limit), (''reverse'', JString (if reverse then ''true'' else ''false''))])";
        cases "request' lib self ''GET'' ''/api/scan'' (Params [(''start'', JString start), (''end'', JString stop), (''limit'', JInt limit), (''reverse'', JString (if reverse then ''true'' else ''false''))])")
       (auto simp: scan_def Let_def split: sum.splits prod.splits)
  have c7: "snd (put_vector lib h (close lib self) key vector) = snd (put_vector lib h self key vector)"
    using rq [of "''POST''" "''/api/vector/put''" "Json (JObject [(''key'', JString key), (''vector'', JArray (map JFloat (to_list (fst (Vector_init h (PyList vector))) (snd (Vector_init h (PyList vector))))))])"]
    by (cases "request' lib (close lib self) ''POST'' ''/api/vector/put'' (Json (JObject [(''key'', JString key), (''vector'', JArray (map JFloat (to_list (fst (Vector_init h (PyList vector))) (snd (Vector_init h (PyList vector))))))]))";
        cases "request' lib self ''POST'' ''/api/vector/put'' (Json (JObject [(''key'', JString key), (''vector'', JArray (map JFloat (to_list (fst (Vector_init h (PyList vector))) (snd (Vector_init h (PyList vector))))))]))")
       (auto simp: put_vector_def split: sum.splits prod.splits)
  have c8: "snd (get_vector lib np h (close lib self) key) = snd (get_vector lib np h self key)"
    using rq [of "''GET''" "''/api/vector/get''" "Params [(''key'', JString key)]"]
    by (cases "request' lib (close lib self) ''GET'' ''/api/vector/get'' (Params [(''key'', JString key)])";
        cases "request' lib self ''GET'' ''/api/vector/get'' (Params [(''key'', JString key)])")
       (auto simp: get_vector_def split: sum.splits prod.splits)
  have c9: "snd (search_similar lib h (close lib self) query k) = snd (search_similar lib h self query k)"
    using rq [of "''POST''" "''/api/vector/search''" "Json (JObject [(''query'', JArray (map JFloat (to_list (fst (Vector_init h (PyList query))) (snd (Vector_init h (PyList query)))))), (''k'', JInt k)])"]
    by (cases "request' lib (close lib self) ''POST'' ''/api/vector/search'' (Json (JObject [(''query'', JArray (map JFloat (to_list (fst (Vector_init h (PyList query))) (snd (Vector_init h (PyList query)))))), (''k'', JInt k)]))";
        cases "request' lib self ''POST'' ''/api/vector/search'' (Json (JObject [(''query'', JArray (map JFloat (to_list (fst (Vector_init h (PyList query))) (snd (Vector_init h (PyList query)))))), (''k'', JInt k)]))")
       (auto simp: search_similar_def split: sum.splits prod.splits)
  have c10: "snd (get_stats lib (close lib self)) = snd (get_stats lib self)"
    using rq [of "''GET''" "''/api/stats''" "NoPayload"]
    by (cases "request' lib (close lib self) ''GET'' ''/api/stats'' (NoPayload)";
        cases "request' lib self ''GET'' ''/api/stats'' (NoPayload)")
       (auto simp: get_stats_def split: sum.splits prod.splits)
  have c11: "snd (health_check lib (close lib self)) = snd (health_check lib self)"
    using rq [of "''GET''" "''/api/health''" "NoPayload"]
    by (cases "request' lib (close lib self) ''GET'' ''/api/health'' (NoPayload)";
        cases "request' lib self ''GET'' ''/api/health'' (NoPayload)")
       (auto simp: health_check_def split: sum.splits prod.splits)
  have s1: "sent (session (fst (put (wire_lib server) (close (wire_lib server) w) key val)))
            = sent (session w) @
                [\<lparr>req_method = ''POST'', req_base = base_url w, req_endpoint = ''/api/put'',
                  req_timeout = timeout w,
                  req_payload = FormData [(''key'', key), (''value'', val)]\<rparr>]"
    by (simp add: put_fst request'_sent_closed)
  have s2: "sent (session (fst (get (wire_lib server) (close (wire_lib server) w) key)))
            = sent (session w) @
                [\<lparr>req_method = ''GET'', req_base = base_url w, req_endpoint = ''/api/get'',
                  req_timeout = timeout w,
                  req_payload = Params [(''key'', JString key)]\<rparr>]"
    by (simp add: get_fst request'_sent_closed)
  have s3: "sent (session (fst (delete (wire_lib server) (close (wire_lib server) w) key)))
            = sent (session w) @
                [\<lparr>req_method = ''POST'', req_base = base_url w, req_endpoint = ''/api/delete'',
                  req_timeout = timeout w,
                  req_payload = FormData [(''key'', key)]\<rparr>]"
    by (simp add: delete_fst request'_sent_closed)
  have s4: "sent (session (fst (batch_put (wire_lib server) (close (wire_lib server) w) items)))
            = sent (session w) @
                [\<lparr>req_method = ''POST'', req_base = base_url w, req_endpoint = ''/api/batch'',
                  req_timeout = timeout w,
                  req_payload = Json (JObject [(''operations'', JArray (map (\<lambda>(k, v). JObject [(''type'', JString ''PUT''), (''key'', JString k), (''value'', JString v)]) items))])\<rparr>]"
    by (simp add: batch_put_fst request'_sent_closed)
  have s5: "sent (session (fst (batch_get (wire_lib server) (close (wire_lib server) w) keys)))
            = sent (session w) @
                [\<lparr>req_method = ''POST'', req_base = base_url w, req_endpoint = ''/api/batch_get'',
                  req_timeout = timeout w,
                  req_payload = Json (JObject [(''keys'', JArray (map JString keys))])\<rparr>]"
    by (simp add: batch_get_fst request'_sent_closed)
  have s6: "sent (session (fst (scan (wire_lib server) (close (wire_lib server) w) start stop limit reverse)))
            = sent (session w) @
                [\<lparr>req_method = ''GET'', req_base = base_url w, req_endpoint = ''/api/scan'',
                  req_timeout = timeout w,
                  req_payload = Params [(''start'', JString start), (''end'', JString stop), (''limit'', JInt limit), (''reverse'', JString (if reverse then ''true'' else ''false''))]\<rparr>]"
    by (simp add: scan_fst request'_sent_closed)
  have s7: "(list_all (\<lambda>x. is_finite (to_float32 x)) vector \<longrightarrow>
          sent (session (fst (put_vector (wire_lib server) h (close (wire_lib server) w) key vector)))
            = sent (session w) @
                [\<lparr>req_method = ''POST'', req_base = base_url w, req_endpoint = ''/api/vector/put'',
                  req_timeout = timeout w,
                  req_payload = Json (JObject [(''key'', JString key), (''vector'', JArray (map (\<lambda>x. JFloat (to_float64 (to_float32 x))) vector))])\<rparr>])"
    by (simp add: put_vector_fst to_list_fresh request'_sent_closed finite_to_list_fresh comp_def)
  have s8: "sent (session (fst (get_vector (wire_lib server) np h (close (wire_lib server) w) key)))
            = sent (session w) @
                [\<lparr>req_method = ''GET'', req_base = base_url w, req_endpoint = ''/api/vector/get'',
                  req_timeout = timeout w,
                  req_payload = Params [(''key'', JString key)]\<rparr>]"
    by (simp add: get_vector_fst request'_sent_closed)
  have s9: "(list_all (\<lambda>x. is_finite (to_float32 x)) query \<longrightarrow>
          sent (session (fst (search_similar (wire_lib server) h (close (wire_lib server) w) query k)))
            = sent (session w) @
                [\<lparr>req_method = ''POST'', req_base = base_url w, req_endpoint = ''/api/vector/search'',
                  req_timeout = timeout w,
                  req_payload = Json (JObject [(''query'', JArray (map (\<lambda>x. JFloat (to_float64 (to_float32 x))) query)), (''k'', JInt k)])\<rparr>])"
    by (simp add: search_similar_fst to_list_fresh request'_sent_closed finite_to_list_fresh comp_def)
  have s10: "sent (session (fst (get_stats (wire_lib server) (close (wire_lib server) w))))
            = sent (session w) @
                [\<lparr>req_method = ''GET'', req_base = base_url w, req_endpoint = ''/api/stats'',
                  req_timeout = timeout w,
                  req_payload = NoPayload\<rparr>]"
    by (simp add: get_stats_fst request'_sent_closed)
  have s11: "sent (session (fst (health_check (wire_lib server) (close (wire_lib server) w))))
            = sent (session w) @
                [\<lparr>req_method = ''GET'', req_base = base_url w, req_endpoint = ''/api/health'',
                  req_timeout = timeout w,
                  req_payload = NoPayload\<rparr>]"
    by (simp add: health_check_fst request'_sent_closed)
  show ?thesis
    using c1 c2 c3 c4 c5 c6 c7 c8 c9 c10 c11
          s1 s2 s3 s4 s5 s6 s7 s8 s9 s10 s11 by (intro conjI)
qed

theorem operations_after_close_witness:
  "snd (put (wire_lib (answer 200 ''OK'' None))
          (close (wire_lib (answer 200 ''OK'' None)) client0) ''k'' ''v'')
     = snd (put (wire_lib (answer 200 ''OK'' None)) client0 ''k'' ''v'')
 \<and> snd (put (wire_lib (answer 200 ''OK'' None)) client0 ''k'' ''v'') = Inr ()
 \<and> sent (session (fst (get (wire_lib (answer 200 ''OK'' None))
          (close (wire_lib (answer 200 ''OK'' None)) client0) ''k'')))
     = [\<lparr>req_method = ''GET'', req_base = ''http://localhost:8080'',
         req_endpoint = ''/api/get'', req_timeout = 30,
         req_payload = Params [(''key'', JString ''k'')]\<rparr>]"
proof -
  have "\<forall>req. snd (session_request (wire_lib (answer 200 ''OK'' None))
                    (session_close (wire_lib (answer 200 ''OK'' None)) (session client0)) req)
             = snd (session_request (wire_lib (answer 200 ''OK'' None)) (session client0) req)"
    by (simp add: wire_lib_def)
  from operations_after_close
         [OF this, where key = "''k''" and val = "''v''" and w = client0
            and server = "answer 200 ''OK'' None"]
  have "snd (put (wire_lib (answer 200 ''OK'' None))
               (close (wire_lib (answer 200 ''OK'' None)) client0) ''k'' ''v'')
          = snd (put (wire_lib (answer 200 ''OK'' None)) client0 ''k'' ''v'')
      \<and> sent (session (fst (get (wire_lib (answer 200 ''OK'' None))
               (close (wire_lib (answer 200 ''OK'' None)) client0) ''k'')))
          = sent (session client0) @
              [\<lparr>req_method = ''GET'', req_base = base_url client0, req_endpoint = ''/api/get'',
                req_timeout = timeout client0, req_payload = Params [(''key'', JString ''k'')]\<rparr>]"
    by blast
  moreover have "snd (put (wire_lib (answer 200 ''OK'' None)) client0 ''k'' ''v'') = Inr ()"
    by (simp add: put_def request'_wire answer_def)
  ultimately show ?thesis by (simp add: client0_def)
qed

section \<open>Properties of the vector\<close>

subsection \<open>Dimensions\<close>

text \<open>
  No method of \<open>Vector\<close> compares the dimensions. For vectors of differing
  dimensions \<open>cosine_similarity\<close> and \<open>dot_product\<close> fail with the \<open>ValueError\<close> that
  \<open>np.dot\<close> raises, and so does \<open>euclidean_distance\<close> with the \<open>ValueError\<close> of the
  subtraction, unless one of the dimensions is 1.
\<close>

lemma metrics_on_differing_dimensions:
  assumes "len h self \<noteq> len h other"
  shows "cosine_similarity np h self other = Inl (ValueError ''shapes not aligned'')
       \<and> dot_product np h self other = Inl (ValueError ''shapes not aligned'')
       \<and> (len h self \<noteq> 1 \<and> len h other \<noteq> 1 \<longrightarrow>
            euclidean_distance np h self other
              = Inl (ValueError ''operands could not be broadcast together''))"
  using assms
  by (simp add: cosine_similarity_def dot_product_def euclidean_distance_def np_dot_def
        np_subtract_def len_def)

text \<open>
  C2 fails on \<open>Vector([1.0])\<close> and \<open>Vector([1.0, 2.0, 3.0])\<close>, of the dimensions 1
  and 3. \<open>cosine_similarity\<close> and \<open>dot_product\<close> raise \<open>ValueError\<close>, but
  \<open>euclidean_distance\<close> raises nothing: numpy stretches the one component over
  the three, and the method returns the square root of 5 in \<open>float32\<close>, the
  distance to a vector \<open>[1.0, 1.0, 1.0]\<close> that the caller never gave.
\<close>

theorem euclidean_distance_broadcasts:
  "Vector_init [] (PyList [Fin False 1 0]) = ([[Fin False 8388608 (- 23)]], \<lparr>data = 0\<rparr>)
 \<and> Vector_init [[Fin False 8388608 (- 23)]] (PyList [Fin False 1 0, Fin False 2 0, Fin False 3 0])
     = ([[Fin False 8388608 (- 23)],
         [Fin False 8388608 (- 23), Fin False 8388608 (- 22), Fin False 12582912 (- 22)]],
        \<lparr>data = 1\<rparr>)
 \<and> len [[Fin False 8388608 (- 23)],
         [Fin False 8388608 (- 23), Fin False 8388608 (- 22), Fin False 12582912 (- 22)]]
        \<lparr>data = 0\<rparr> = 1
 \<and> len [[Fin False 8388608 (- 23)],
         [Fin False 8388608 (- 23), Fin False 8388608 (- 22), Fin False 12582912 (- 22)]]
        \<lparr>data = 1\<rparr> = 3
 \<and> cosine_similarity numpy_ref
       [[Fin False 8388608 (- 23)],
        [Fin False 8388608 (- 23), Fin False 8388608 (- 22), Fin False 12582912 (- 22)]]
       \<lparr>data = 0\<rparr> \<lparr>data = 1\<rparr>
     = Inl (ValueError ''shapes not aligned'')
 \<and> dot_product numpy_ref
       [[Fin False 8388608 (- 23)],
        [Fin False 8388608 (- 23), Fin False 8388608 (- 22), Fin False 12582912 (- 22)]]
       \<lparr>data = 0\<rparr> \<lparr>data = 1\<rparr>
     = Inl (ValueError ''shapes not aligned'')
 \<and> euclidean_distance numpy_ref
       [[Fin False 8388608 (- 23)],
        [Fin False 8388608 (- 23), Fin False 8388608 (- 22), Fin False 12582912 (- 22)]]
       \<lparr>data = 0\<rparr> \<lparr>data = 1\<rparr>
     = Inr (Fin False 5035177529049088 (- 51))
 \<and> euclidean_distance numpy_ref
       [[Fin False 8388608 (- 23)],
        [Fin False 8388608 (- 23), Fin False 8388608 (- 22), Fin False 12582912 (- 22)]]
       \<lparr>data = 1\<rparr> \<lparr>data = 0\<rparr>
     = Inr (Fin False 5035177529049088 (- 51))"
  by (simp add: vec_eval fp_eval)

subsection \<open>Normalisation\<close>







subsection \<open>Cosine similarity\<close>

text \<open>
  C6. For vectors of equal dimension, when the norm computed for either of them
  equals zero, and in particular when all components of either of them are zero,
  \<open>cosine_similarity\<close> returns the float \<open>0.0\<close>: it raises nothing and the result
  is not \<open>NaN\<close>.
\<close>

theorem cosine_similarity_zero_norm:
  assumes "len h self = len h other"
    and "fp_eq (linalg_norm np (h ! data self)) zero32
       \<or> fp_eq (linalg_norm np (h ! data other)) zero32
       \<or> (\<forall>x \<in> set (h ! data self). fp_eq x zero32)
       \<or> (\<forall>x \<in> set (h ! data other). fp_eq x zero32)"
  shows "cosine_similarity np h self other = Inr zero64"
proof -
  have z: "fp_eq zero32 zero32"
    by (simp add: zero32_def)
  have "fp_eq (linalg_norm np (h ! data self)) zero32 \<or> fp_eq (linalg_norm np (h ! data other)) zero32"
    using assms(2) z norm_zero_vector [of "h ! data self" np] norm_zero_vector [of "h ! data other" np]
    by auto
  then show ?thesis
    using assms(1) by (auto simp: cosine_similarity_def np_dot_def len_def Let_def)
qed

theorem cosine_similarity_zero_norm_witness:
  "len [[zero32, zero32], [Fin False 8388608 (- 23), Fin False 8388608 (- 22)]] \<lparr>data = 0\<rparr>
     = len [[zero32, zero32], [Fin False 8388608 (- 23), Fin False 8388608 (- 22)]] \<lparr>data = 1\<rparr>
 \<and> fp_eq (linalg_norm numpy_ref [zero32, zero32]) zero32
 \<and> fp_eq zero32 zero32
 \<and> cosine_similarity numpy_ref [[zero32, zero32], [Fin False 8388608 (- 23), Fin False 8388608 (- 22)]]
       \<lparr>data = 0\<rparr> \<lparr>data = 1\<rparr> = Inr zero64"
proof -
  have z: "fp_eq zero32 zero32"
    by (simp add: zero32_def)
  have n: "fp_eq (linalg_norm numpy_ref [zero32, zero32]) zero32"
    by (simp add: linalg_norm_def dot_sum_def numpy_ref_def fp_eval)
  show ?thesis
    using n z cosine_similarity_zero_norm
            [where h = "[[zero32, zero32], [Fin False 8388608 (- 23), Fin False 8388608 (- 22)]]"
               and self = "\<lparr>data = 0\<rparr>" and other = "\<lparr>data = 1\<rparr>" and np = numpy_ref]
    by (simp add: len_def)
qed

subsection \<open>Euclidean distance\<close>




subsection \<open>Indexed access\<close>

text \<open>
  C9. Reading and writing component \<open>i\<close> of a vector of dimension \<open>n\<close> succeed for
  every position that numpy accepts, \<open>-n \<le> i < n\<close> (a negative position counts from
  the end): the read returns the component, the write stores the value in
  \<open>float32\<close> at that position and leaves the dimension as it is. Every other
  position raises \<open>IndexError\<close>, on a read and on a write.
\<close>

theorem indexed_access:
  assumes "data self < length h"
  shows "(- int (len h self) \<le> i \<and> i < int (len h self) \<longrightarrow>
            nat (if i < 0 then i + int (len h self) else i) < len h self
          \<and> getitem h self i
              = Inr ((h ! data self) ! nat (if i < 0 then i + int (len h self) else i))
          \<and> (\<exists>h'. setitem h self i x = Inr h'
                  \<and> len h' self = len h self
                  \<and> getitem h' self i = Inr (to_float32 x)))
       \<and> (\<not> (- int (len h self) \<le> i \<and> i < int (len h self)) \<longrightarrow>
            getitem h self i = Inl (IndexError ''index is out of bounds for axis 0'')
          \<and> setitem h self i x = Inl (IndexError ''index is out of bounds for axis 0''))"
  using assms by (auto simp: getitem_def setitem_def np_index_def len_def)

theorem indexed_access_witness:
  "getitem [[Fin False 8388608 (- 23), Fin False 8388608 (- 22), Fin False 12582912 (- 22)]]
     \<lparr>data = 0\<rparr> (- 1) = Inr (Fin False 12582912 (- 22))
 \<and> getitem [[Fin False 8388608 (- 23), Fin False 8388608 (- 22), Fin False 12582912 (- 22)]]
     \<lparr>data = 0\<rparr> 3 = Inl (IndexError ''index is out of bounds for axis 0'')
 \<and> setitem [[Fin False 8388608 (- 23), Fin False 8388608 (- 22), Fin False 12582912 (- 22)]]
     \<lparr>data = 0\<rparr> (- 4) (Fin False 1 0) = Inl (IndexError ''index is out of bounds for axis 0'')"
  using indexed_access
          [of "\<lparr>data = 0\<rparr>"
              "[[Fin False 8388608 (- 23), Fin False 8388608 (- 22), Fin False 12582912 (- 22)]]"
              "- 1" "Fin False 1 0"]
        indexed_access
          [of "\<lparr>data = 0\<rparr>"
              "[[Fin False 8388608 (- 23), Fin False 8388608 (- 22), Fin False 12582912 (- 22)]]"
              "3" "Fin False 1 0"]
        indexed_access
          [of "\<lparr>data = 0\<rparr>"
              "[[Fin False 8388608 (- 23), Fin False 8388608 (- 22), Fin False 12582912 (- 22)]]"
              "- 4" "Fin False 1 0"]
  by (simp add: len_def)

subsection \<open>Components on the wire\<close>

lemma tenth_rounds:
  "to_float32 (Fin False 3602879701896397 (- 55)) = Fin False 13421773 (- 27)"
  "to_float64 (Fin False 13421773 (- 27)) = Fin False 7205759511166976 (- 56)"
  "\<not> fp_eq (Fin False 7205759511166976 (- 56)) (Fin False 3602879701896397 (- 55))"
  by (simp_all add: fp_eval)

lemma not_compliant_wire_floats:
  "\<not> list_all (\<lambda>x. is_finite (to_float32 x)) xs \<Longrightarrow>
     \<not> list_all json_compliant (map JFloat (map (\<lambda>x. to_float64 (to_float32 x)) xs))"
  by (simp add: comp_def)

text \<open>
  C10, as stated, fails. \<open>2^130\<close> is a finite double, and its \<open>float32\<close> rounding is
  infinite. \<open>put_vector\<close> and \<open>search_similar\<close> do not put it on the wire: the HTTP
  library refuses to encode the infinity, the client raises
  \<open>VectisConnectionError\<close>, and nothing is transmitted.
\<close>

theorem put_vector_infinite_counterexample:
  "Vector_init [] (PyList [Fin False 1 130]) = ([[Inf False]], \<lparr>data = 0\<rparr>)
 \<and> put_vector (wire_lib (answer 200 ''OK'' None)) [] client0 ''v1'' [Fin False 1 130]
     = (client0, Inl (VectisConnectionError
          ''Request failed: Out of range float values are not JSON compliant''))
 \<and> sent (session (fst (put_vector (wire_lib (answer 200 ''OK'' None)) [] client0 ''v1''
                         [Fin False 1 130]))) = []
 \<and> search_similar (wire_lib (answer 200 ''OK'' None)) [] client0 [Fin False 1 130] 10
     = (client0, Inl (VectisConnectionError
          ''Request failed: Out of range float values are not JSON compliant''))"
  by (simp add: put_vector_def search_similar_def request'_refused vec_eval fp_eval client0_def)

text \<open>
  C10, amended. The constructor stores the \<open>float32\<close> rounding of each component
  of the list. When every rounding is finite, \<open>put_vector\<close> and \<open>search_similar\<close>
  transmit one request, which carries for each component \<open>x\<close> of the caller the
  float of the \<open>float32\<close> rounding of \<open>x\<close>; that float has the value of the
  rounding, and it can differ from \<open>x\<close>: the double nearest to 0.1 is sent as
  0.100000001490116. When some rounding is infinite or \<open>NaN\<close>, the library refuses
  the request: both methods raise \<open>VectisConnectionError\<close> and transmit nothing.
\<close>

theorem wire_components_are_float32:
  "fst (Vector_init h (PyList vector)) ! data (snd (Vector_init h (PyList vector)))
     = map to_float32 vector
 \<and> (list_all (\<lambda>x. is_finite (to_float32 x)) vector \<longrightarrow>
      sent (session (fst (put_vector (wire_lib server) h self key vector)))
        = sent (session self) @
            [\<lparr>req_method = ''POST'', req_base = base_url self,
              req_endpoint = ''/api/vector/put'', req_timeout = timeout self,
              req_payload = Json (JObject [(''key'', JString key),
                (''vector'', JArray (map JFloat (map (\<lambda>x. to_float64 (to_float32 x)) vector)))])\<rparr>]
    \<and> sent (session (fst (search_similar (wire_lib server) h self vector k)))
        = sent (session self) @
            [\<lparr>req_method = ''POST'', req_base = base_url self,
              req_endpoint = ''/api/vector/search'', req_timeout = timeout self,
              req_payload = Json (JObject
                [(''query'', JArray (map JFloat (map (\<lambda>x. to_float64 (to_float32 x)) vector))),
                 (''k'', JInt k)])\<rparr>])
 \<and> (\<not> list_all (\<lambda>x. is_finite (to_float32 x)) vector \<longrightarrow>
      put_vector (wire_lib server) h self key vector
        = (self, Inl (VectisConnectionError
             ''Request failed: Out of range float values are not JSON compliant''))
    \<and> search_similar (wire_lib server) h self vector k
        = (self, Inl (VectisConnectionError
             ''Request failed: Out of range float values are not JSON compliant'')))
 \<and> (\<forall>x. to_float32 x = NaN \<and> to_float64 (to_float32 x) = NaN
        \<or> fp_eq (to_float64 (to_float32 x)) (to_float32 x))
 \<and> to_float64 (to_float32 (Fin False 3602879701896397 (- 55))) = Fin False 7205759511166976 (- 56)
 \<and> \<not> fp_eq (Fin False 7205759511166976 (- 56)) (Fin False 3602879701896397 (- 55))"
proof -
  have a: "fst (Vector_init h (PyList vector)) ! data (snd (Vector_init h (PyList vector)))
             = map to_float32 vector"
    by (simp add: Vector_init_def alloc_def)
  have b: "list_all (\<lambda>x. is_finite (to_float32 x)) vector \<longrightarrow>
      sent (session (fst (put_vector (wire_lib server) h self key vector)))
        = sent (session self) @
            [\<lparr>req_method = ''POST'', req_base = base_url self,
              req_endpoint = ''/api/vector/put'', req_timeout = timeout self,
              req_payload = Json (JObject [(''key'', JString key),
                (''vector'', JArray (map JFloat (map (\<lambda>x. to_float64 (to_float32 x)) vector)))])\<rparr>]
    \<and> sent (session (fst (search_similar (wire_lib server) h self vector k)))
        = sent (session self) @
            [\<lparr>req_method = ''POST'', req_base = base_url self,
              req_endpoint = ''/api/vector/search'', req_timeout = timeout self,
              req_payload = Json (JObject
                [(''query'', JArray (map JFloat (map (\<lambda>x. to_float64 (to_float32 x)) vector))),
                 (''k'', JInt k)])\<rparr>]"
    by (simp add: put_vector_fst search_similar_fst to_list_fresh request'_sent comp_def)
  have c: "\<not> list_all (\<lambda>x. is_finite (to_float32 x)) vector \<longrightarrow>
      put_vector (wire_lib server) h self key vector
        = (self, Inl (VectisConnectionError
             ''Request failed: Out of range float values are not JSON compliant''))
    \<and> search_similar (wire_lib server) h self vector k
        = (self, Inl (VectisConnectionError
             ''Request failed: Out of range float values are not JSON compliant''))"
  proof
    assume "\<not> list_all (\<lambda>x. is_finite (to_float32 x)) vector"
    then have n: "\<not> list_all json_compliant
                      (map JFloat (to_list (fst (Vector_init h (PyList vector)))
                                           (snd (Vector_init h (PyList vector)))))"
      by (simp only: to_list_fresh not_compliant_wire_floats not_False_eq_True)
    have e1: "\<not> encodable (Json (JObject [(''key'', JString key),
                 (''vector'', JArray (map JFloat (to_list (fst (Vector_init h (PyList vector)))
                                           (snd (Vector_init h (PyList vector))))))]))"
      using n by simp
    have e2: "\<not> encodable (Json (JObject
                 [(''query'', JArray (map JFloat (to_list (fst (Vector_init h (PyList vector)))
                                           (snd (Vector_init h (PyList vector)))))),
                  (''k'', JInt k)]))"
      using n by simp
    have p: "put_vector (wire_lib server) h self key vector
        = (self, Inl (VectisConnectionError
             ''Request failed: Out of range float values are not JSON compliant''))"
      by (simp add: put_vector_def case_prod_beta request'_refused [OF e1])
    have q: "search_similar (wire_lib server) h self vector k
        = (self, Inl (VectisConnectionError
             ''Request failed: Out of range float values are not JSON compliant''))"
      by (simp add: search_similar_def case_prod_beta request'_refused [OF e2])
    show "put_vector (wire_lib server) h self key vector
        = (self, Inl (VectisConnectionError
             ''Request failed: Out of range float values are not JSON compliant''))
    \<and> search_similar (wire_lib server) h self vector k
        = (self, Inl (VectisConnectionError
             ''Request failed: Out of range float values are not JSON compliant''))"
      using p q by (rule conjI)
  qed
  have d: "to_float64 (to_float32 (Fin False 3602879701896397 (- 55)))
             = Fin False 7205759511166976 (- 56)"
    by (simp only: tenth_rounds)
  have e: "\<forall>x. to_float32 x = NaN \<and> to_float64 (to_float32 x) = NaN
              \<or> fp_eq (to_float64 (to_float32 x)) (to_float32 x)"
    using widen_exact by blast
  show ?thesis
    using a b c d e tenth_rounds(3) by (intro conjI)
qed

theorem wire_components_are_float32_witness:
  "list_all (\<lambda>x. is_finite (to_float32 x)) [Fin False 3602879701896397 (- 55)]
 \<and> sent (session (fst (put_vector (wire_lib (answer 200 ''OK'' None)) [] client0 ''v1''
                         [Fin False 3602879701896397 (- 55)])))
     = [\<lparr>req_method = ''POST'', req_base = ''http://localhost:8080'',
         req_endpoint = ''/api/vector/put'', req_timeout = 30,
         req_payload = Json (JObject [(''key'', JString ''v1''),
            (''vector'', JArray [JFloat (Fin False 7205759511166976 (- 56))])])\<rparr>]
 \<and> \<not> list_all (\<lambda>x. is_finite (to_float32 x)) [Fin False 1 130]
 \<and> put_vector (wire_lib (answer 200 ''OK'' None)) [] client0 ''v1'' [Fin False 1 130]
     = (client0, Inl (VectisConnectionError
          ''Request failed: Out of range float values are not JSON compliant''))"
  using wire_components_are_float32
          [where h = "[]" and vector = "[Fin False 3602879701896397 (- 55)]"
             and server = "answer 200 ''OK'' None" and self = client0 and key = "''v1''"]
        wire_components_are_float32
          [where h = "[]" and vector = "[Fin False 1 130]"
             and server = "answer 200 ''OK'' None" and self = client0 and key = "''v1''"]
  by (simp add: client0_def tenth_rounds fp_eval)

end
